theory Spec2Isabelle
  imports Complex_Main
begin

section \<open>Python values used by the model\<close>

text \<open>
  Python floats are modelled as reals (exact arithmetic, no rounding, no infinities).
  A float raised to the power 0.5 is a float for a non-negative base and a complex
  number for a negative base, so a numeric result is either of the two.
  Strings are lists of characters with code points below 256.
\<close>

datatype pynum = PyFloat real | PyComplex complex

datatype pyexn = NameError | TypeError | ValueError | UnicodeDecodeError
  | SerialException | SerialTimeoutException | RecursionError | OverflowError
  | ZeroDivisionError | OtherError

text \<open>
  The two \<open>except\<close> clauses of the repository: \<open>UnicodeDecodeError\<close> is a subclass of
  \<open>ValueError\<close>, \<open>SerialTimeoutException\<close> a subclass of \<open>SerialException\<close>.
\<close>

definition is_ValueError :: "pyexn \<Rightarrow> bool" where
  "is_ValueError e = (e = ValueError \<or> e = UnicodeDecodeError)"

definition is_SerialException :: "pyexn \<Rightarrow> bool" where
  "is_SerialException e = (e = SerialException \<or> e = SerialTimeoutException)"

text \<open>
  A computation that may raise is a value of \<open>pyexn + 'a\<close>. \<open>then_do\<close> runs the next
  statement unless an exception is already on its way; \<open>try_except\<close> is a \<open>try\<close> block
  with one \<open>except\<close> clause, whose handler yields the given result.
\<close>

definition then_do :: "pyexn + 'a \<Rightarrow> ('a \<Rightarrow> pyexn + 'b) \<Rightarrow> pyexn + 'b" where
  "then_do m f = (case m of Inl e \<Rightarrow> Inl e | Inr v \<Rightarrow> f v)"

definition try_except :: "pyexn + 'a \<Rightarrow> (pyexn \<Rightarrow> bool) \<Rightarrow> pyexn + 'a \<Rightarrow> pyexn + 'a" where
  "try_except body caught handler =
     (case body of Inl e \<Rightarrow> if caught e then handler else Inl e | Inr v \<Rightarrow> Inr v)"

text \<open>\<open>x ** 0.5\<close> for a float \<open>x\<close>.\<close>

definition py_pow_half :: "real \<Rightarrow> pynum" where
  "py_pow_half x = (if 0 \<le> x then PyFloat (sqrt x) else PyComplex (Complex 0 (sqrt (- x))))"

text \<open>\<open>a * b\<close> for a float \<open>a\<close> and a number \<open>b\<close>.\<close>

fun py_mul :: "real \<Rightarrow> pynum \<Rightarrow> pynum" where
  "py_mul a (PyFloat b) = PyFloat (a * b)"
| "py_mul a (PyComplex z) = PyComplex (of_real a * z)"


section \<open>create_pdf.py\<close>

subsection \<open>Constants\<close>

definition ETA_HE :: real where "ETA_HE = 19.6"
definition ETA_AIR :: real where "ETA_AIR = 18.19"
definition PA1 :: real where "PA1 = 1.0"
definition PA2 :: real where "PA2 = 0.0"
definition PB2 :: real where "PB2 = 1.0"
definition T1 :: real where "T1 = 273.0"

text \<open>The rate-unit strings; the superscript three is code point 179.\<close>

definition unit_cm3_min :: string where
  "unit_cm3_min = ''cm'' @ [CHR 0xB3] @ ''/min''"

definition unit_SCCM :: string where
  "unit_SCCM = ''SCCM''"

subsection \<open>Data model\<close>

text \<open>
  The report record of \<open>db_model\<close>, as \<open>create_pdf\<close> reads it. The field
  \<open>pressure_difference\<close> holds the number that \<open>float(report_data.pressure_difference)\<close>
  yields.
\<close>

record report =
  test_medium :: string
  report_note :: string
  image :: string
  pressure_difference :: real
  rate_unit :: string
  graph_type :: int

text \<open>
  A stored measurement row (leak rates per second) and a stored specimen, whose two
  series are the lists that \<open>json.loads\<close> yields. Every numeric attribute holds a number;
  a row with a missing value is outside the model.
\<close>

record measurement =
  panel_no :: string
  location_no :: string
  time_in_seconds :: real
  value_mbarl_second :: real
  max_value :: real
  average_temperature :: real

record specimen =
  x_value :: "real list"
  y_value :: "real list"

text \<open>
  A row of the deep-copied measurement list after the conversion loop has overwritten
  the two leak-rate attributes.
\<close>

record pdf_measurement =
  pm_panel_no :: string
  pm_location_no :: string
  pm_time_in_seconds :: real
  pm_value_mbarl_second :: pynum
  pm_max_value :: pynum
  pm_average_temperature :: real

subsection \<open>convert_he_to_air\<close>

definition convert_he_to_air :: "report \<Rightarrow> real \<Rightarrow> real \<Rightarrow> pynum" where
  "convert_he_to_air rd he_leak_rate avg_temperature =
     (let pb1 = pressure_difference rd + 1;
          delta_p = (pb1 ^ 2 - PB2 ^ 2) / (PA1 ^ 2 - PA2 ^ 2);
          air_leakrate = he_leak_rate * (ETA_HE / ETA_AIR);
          air_leakrate = (if delta_p > 0 then air_leakrate * delta_p else air_leakrate)
      in if rate_unit rd = unit_SCCM
         then (let air_leakrate_cm3_min = air_leakrate * 60
               in py_mul air_leakrate_cm3_min (py_pow_half (avg_temperature / T1)))
         else PyFloat air_leakrate)"

text \<open>
  The environment of a running \<open>create_pdf\<close>: the report it closes over and the two
  module globals that \<open>load_data_from_database_pdf\<close> assigns. The conversion, seen as
  a step of that program, returns its value together with the environment it leaves.
\<close>

record pdf_state =
  report_data :: report
  element_listx :: "real list list"
  element_listy :: "pynum list list"

definition convert_he_to_air_step :: "pdf_state \<Rightarrow> real \<Rightarrow> real \<Rightarrow> pynum \<times> pdf_state" where
  "convert_he_to_air_step s he_leak_rate avg_temperature =
     (convert_he_to_air (report_data s) he_leak_rate avg_temperature, s)"

subsection \<open>get_elem_direction_value\<close>

definition get_elem_direction_value :: "string \<Rightarrow> string" where
  "get_elem_direction_value direction =
     (if direction = ''0'' then ''Nut facing upwards''
      else if direction = ''1'' then ''Nut facing downwards''
      else if direction = ''2'' then ''Capnut facing upwards''
      else if direction = ''3'' then ''Capnut facing downwards''
      else if direction = ''4'' then ''Bolt facing upwards''
      else if direction = ''5'' then ''Bolt facing downwards''
      else '''')"

subsection \<open>The measurement loop and load_data_from_database_pdf\<close>

text \<open>
  One pass of the body of \<open>for measurement in measurements_list\<close>: the optional
  scaling by 60, then the optional conversion to air.
\<close>

definition scale_measurement :: "report \<Rightarrow> measurement \<Rightarrow> measurement" where
  "scale_measurement rd m =
     (if rate_unit rd = unit_cm3_min
      then m\<lparr>max_value := max_value m * 60, value_mbarl_second := value_mbarl_second m * 60\<rparr>
      else m)"

definition convert_measurement :: "report \<Rightarrow> measurement \<Rightarrow> pdf_measurement" where
  "convert_measurement rd m =
     (let m1 = scale_measurement rd m
      in \<lparr>pm_panel_no = panel_no m1, pm_location_no = location_no m1,
          pm_time_in_seconds = time_in_seconds m1,
          pm_value_mbarl_second =
            (if test_medium rd = ''Air''
             then convert_he_to_air rd (value_mbarl_second m1) (average_temperature m1)
             else PyFloat (value_mbarl_second m1)),
          pm_max_value =
            (if test_medium rd = ''Air''
             then convert_he_to_air rd (max_value m1) (average_temperature m1)
             else PyFloat (max_value m1)),
          pm_average_temperature = average_temperature m1\<rparr>)"

text \<open>A row the loop has not touched keeps its stored floats.\<close>

definition untouched :: "measurement \<Rightarrow> pdf_measurement" where
  "untouched m =
     \<lparr>pm_panel_no = panel_no m, pm_location_no = location_no m,
      pm_time_in_seconds = time_in_seconds m,
      pm_value_mbarl_second = PyFloat (value_mbarl_second m),
      pm_max_value = PyFloat (max_value m),
      pm_average_temperature = average_temperature m\<rparr>"

text \<open>
  The loop with its \<open>flag\<close>: it returns the list as the loop leaves it and the
  loop variable \<open>measurement\<close> as it is bound afterwards (\<open>None\<close>: never bound).
\<close>

fun conversion_loop ::
  "report \<Rightarrow> bool \<Rightarrow> pdf_measurement option \<Rightarrow> measurement list
     \<Rightarrow> pdf_measurement list \<times> pdf_measurement option" where
  "conversion_loop rd flag var [] = ([], var)"
| "conversion_loop rd flag var (m # ms) =
     (let flag1 = (if rate_unit rd = unit_cm3_min then False else flag);
          flag2 = (if test_medium rd = ''Air'' then False else flag1);
          m2 = convert_measurement rd m
      in if flag2 then (m2 # map untouched ms, Some m2)
         else (case conversion_loop rd flag2 (Some m2) ms of
                 (rest, var') \<Rightarrow> (m2 # rest, var')))"

text \<open>
  The loop that builds \<open>df_list\<close>. The formatted strings are not modelled; what is kept
  is that \<open>float(measurement.max_value)\<close> raises TypeError on a complex number and that
  the loop rebinds \<open>measurement\<close>.
\<close>

fun df_list_loop ::
  "pdf_measurement option \<Rightarrow> pdf_measurement list \<Rightarrow> pyexn + pdf_measurement option" where
  "df_list_loop var [] = Inr var"
| "df_list_loop var (m # ms) =
     (case pm_max_value m of
        PyComplex z \<Rightarrow> Inl TypeError
      | PyFloat x \<Rightarrow> df_list_loop (Some m) ms)"

text \<open>
  The inner loop of \<open>load_data_from_database_pdf\<close> over one specimen's y-series. The
  name \<open>measurement\<close> is a free variable of the nested function: reading it while it
  is unbound raises NameError.
\<close>

fun convert_series :: "report \<Rightarrow> pdf_measurement option \<Rightarrow> real list \<Rightarrow> pyexn + pynum list" where
  "convert_series rd var [] = Inr []"
| "convert_series rd var (y # ys) =
     (let y1 = (if rate_unit rd = unit_cm3_min then y * 60 else y)
      in if test_medium rd = ''Air''
         then (case var of
                 None \<Rightarrow> Inl NameError
               | Some m \<Rightarrow>
                   (case convert_series rd var ys of
                      Inl e \<Rightarrow> Inl e
                    | Inr rest \<Rightarrow> Inr (convert_he_to_air rd y1 (pm_average_temperature m) # rest)))
         else (case convert_series rd var ys of
                 Inl e \<Rightarrow> Inl e
               | Inr rest \<Rightarrow> Inr (PyFloat y1 # rest)))"

fun load_specimens ::
  "pdf_state \<Rightarrow> pdf_measurement option \<Rightarrow> specimen list \<Rightarrow> pyexn + pdf_state" where
  "load_specimens s var [] = Inr s"
| "load_specimens s var (sp # sps) =
     (case convert_series (report_data s) var (y_value sp) of
        Inl e \<Rightarrow> Inl e
      | Inr converted_leak_rates \<Rightarrow>
          load_specimens
            (s\<lparr>element_listy := element_listy s @ [converted_leak_rates],
               element_listx := element_listx s @ [x_value sp]\<rparr>) var sps)"

definition load_data_from_database_pdf ::
  "pdf_state \<Rightarrow> pdf_measurement option \<Rightarrow> specimen list \<Rightarrow> pyexn + pdf_state" where
  "load_data_from_database_pdf s var specimens =
     load_specimens (s\<lparr>element_listx := [], element_listy := []\<rparr>) var specimens"

text \<open>
  The data path of \<open>create_pdf\<close>: the conversion loop, the \<open>df_list\<close> loop, then
  \<open>load_data_from_database_pdf()\<close>. It yields the measurement rows and the state with
  the two series globals.
\<close>

definition create_pdf_data ::
  "pdf_state \<Rightarrow> measurement list \<Rightarrow> specimen list \<Rightarrow> pyexn + (pdf_measurement list \<times> pdf_state)" where
  "create_pdf_data s measurements specimens =
     (case conversion_loop (report_data s) True None measurements of
        (measurements_list, var) \<Rightarrow>
          (case df_list_loop var measurements_list of
             Inl e \<Rightarrow> Inl e
           | Inr var' \<Rightarrow>
               (case load_data_from_database_pdf s var' specimens of
                  Inl e \<Rightarrow> Inl e
                | Inr s' \<Rightarrow> Inr (measurements_list, s'))))"

section \<open>helium.py\<close>

subsection \<open>The regular expressions of the pattern\<close>

text \<open>
  What \<open>\d\<close> and \<open>\s\<close> match in a Python string pattern, for code points below 256:
  the ten ASCII digits, and the characters for which \<open>str.isspace\<close> holds
  (tab to carriage return, the four separators 28 to 31, space, 133 and 160).
\<close>

definition is_digit :: "char \<Rightarrow> bool" where
  "is_digit c = (c \<in> set ''0123456789'')"

definition is_space :: "char \<Rightarrow> bool" where
  "is_space c = (of_char c \<in> set [9, 10, 11, 12, 13, 28, 29, 30, 31, 32, 133, 160 :: nat])"

datatype cclass = Lit char | Digit | Space

fun in_class :: "cclass \<Rightarrow> char \<Rightarrow> bool" where
  "in_class (Lit a) c = (c = a)"
| "in_class Digit c = is_digit c"
| "in_class Space c = is_space c"

text \<open>
  The pattern of \<open>parse_data\<close> is a sequence of single characters and of greedily
  repeated classes: \<open>One\<close> is a class taken once, \<open>Plus\<close> is \<open>+\<close>, \<open>Star\<close> is \<open>*\<close>.
\<close>

datatype item = One cclass | Plus cclass | Star cclass

definition lits :: "string \<Rightarrow> item list" where
  "lits s = map (\<lambda>c. One (Lit c)) s"

text \<open>\<open>\d{n}\<close>\<close>

definition digits :: "nat \<Rightarrow> item list" where
  "digits n = replicate n (One Digit)"

text \<open>\<open>\d+\.\d+\<close>, the body of the first four groups.\<close>

definition decimal :: "item list" where
  "decimal = [Plus Digit, One (Lit CHR ''.''), Plus Digit]"

text \<open>\<open>He\s+\<close>, what precedes group 1.\<close>

definition pattern_head :: "item list" where
  "pattern_head = lits ''He'' @ [Plus Space]"

text \<open>Everything after the closing parenthesis of group 1.\<close>

definition pattern_tail :: "item list" where
  "pattern_tail =
     [Star Space] @ lits ''%'' @ [Star Space] @ lits ''O2'' @ [Plus Space] @ decimal
     @ [Star Space] @ lits ''%'' @ [Star Space] @ lits ''Ti'' @ [Plus Space] @ decimal
     @ [Star Space] @ lits ''~C'' @ [Plus Space] @ decimal
     @ [Star Space] @ lits ''hPa'' @ [Plus Space]
     @ digits 4 @ lits ''/'' @ digits 2 @ lits ''/'' @ digits 2 @ [Plus Space]
     @ digits 2 @ lits '':'' @ digits 2 @ lits '':'' @ digits 2"

definition pattern :: "item list" where
  "pattern = pattern_head @ decimal @ pattern_tail"

subsection \<open>re.search\<close>

text \<open>
  A backtracking matcher in the order of Python's engine: a repeated class first takes
  as many characters as it can and gives them back one at a time. A successful match
  yields the piece of text taken by each item of the pattern, and the unread rest.
\<close>

fun cons_first :: "char \<Rightarrow> string list \<Rightarrow> string list" where
  "cons_first x [] = [[x]]"
| "cons_first x (seg # segs) = (x # seg) # segs"

fun match_here :: "item list \<Rightarrow> string \<Rightarrow> (string list \<times> string) option" where
  "match_here [] s = Some ([], s)"
| "match_here (One c # r) [] = None"
| "match_here (One c # r) (x # xs) =
     (if in_class c x
      then (case match_here r xs of
              None \<Rightarrow> None
            | Some (segs, rest) \<Rightarrow> Some ([x] # segs, rest))
      else None)"
| "match_here (Plus c # r) [] = None"
| "match_here (Plus c # r) (x # xs) =
     (if in_class c x
      then (case match_here (Star c # r) xs of
              None \<Rightarrow> None
            | Some (segs, rest) \<Rightarrow> Some (cons_first x segs, rest))
      else None)"
| "match_here (Star c # r) [] =
     (case match_here r [] of
        None \<Rightarrow> None
      | Some (segs, rest) \<Rightarrow> Some ([] # segs, rest))"
| "match_here (Star c # r) (x # xs) =
     (case (if in_class c x then match_here (Star c # r) xs else None) of
        Some (segs, rest) \<Rightarrow> Some (cons_first x segs, rest)
      | None \<Rightarrow>
          (case match_here r (x # xs) of
             None \<Rightarrow> None
           | Some (segs, rest) \<Rightarrow> Some ([] # segs, rest)))"

text \<open>\<open>re.search\<close> tries every start position from the left, the end of the string included.\<close>

fun re_search :: "item list \<Rightarrow> string \<Rightarrow> string list option" where
  "re_search p [] = map_option fst (match_here p [])"
| "re_search p (x # xs) =
     (case match_here p (x # xs) of
        Some (segs, rest) \<Rightarrow> Some segs
      | None \<Rightarrow> re_search p xs)"

text \<open>\<open>match.group(1)\<close>: the text taken by the items between the first pair of parentheses.\<close>

definition group1 :: "string list \<Rightarrow> string" where
  "group1 segs = concat (take (length decimal) (drop (length pattern_head) segs))"

subsection \<open>parse_data\<close>

definition parse_data :: "string \<Rightarrow> string option" where
  "parse_data data =
     (case re_search pattern data of
        Some segs \<Rightarrow> Some (group1 segs)
      | None \<Rightarrow> None)"

subsection \<open>The grammar of an analyzer line\<close>

text \<open>
  The language of the pattern, stated without a matcher: a text belongs to it when it
  can be cut into one piece per item, each piece being what the item denotes.
\<close>

fun piece_ok :: "item \<Rightarrow> string \<Rightarrow> bool" where
  "piece_ok (One c) w = (case w of [x] \<Rightarrow> in_class c x | _ \<Rightarrow> False)"
| "piece_ok (Plus c) w = (w \<noteq> [] \<and> list_all (in_class c) w)"
| "piece_ok (Star c) w = list_all (in_class c) w"

definition in_lang :: "item list \<Rightarrow> string \<Rightarrow> bool" where
  "in_lang p w = (\<exists>segs. w = concat segs \<and> list_all2 piece_ok p segs)"

text \<open>A string matches the grammar when some stretch of it is in the language.\<close>

definition matches_grammar :: "string \<Rightarrow> bool" where
  "matches_grammar s = (\<exists>pre w post. s = pre @ w @ post \<and> in_lang pattern w)"

text \<open>
  The helium percentage of a string: the decimal numeral that follows "He" and its
  whitespace at the start of the leftmost stretch of the string that is an analyzer line.
\<close>

definition helium_reading :: "string \<Rightarrow> string \<Rightarrow> bool" where
  "helium_reading s g =
     (\<exists>pre ws d1 d2 t post.
        s = pre @ ''He'' @ ws @ g @ t @ post \<and> g = d1 @ ''.'' @ d2
        \<and> ws \<noteq> [] \<and> list_all is_space ws
        \<and> d1 \<noteq> [] \<and> list_all is_digit d1 \<and> d2 \<noteq> [] \<and> list_all is_digit d2
        \<and> in_lang pattern_tail t
        \<and> (\<forall>pre1 pre2. pre = pre1 @ pre2 \<and> pre2 \<noteq> [] \<longrightarrow>
              \<not> (\<exists>w post'. pre2 @ ''He'' @ ws @ g @ t @ post = w @ post' \<and> in_lang pattern w)))"

subsection \<open>read_from_serial\<close>

text \<open>\<open>str.strip()\<close>\<close>

definition py_strip :: "string \<Rightarrow> string" where
  "py_strip s = rev (dropWhile is_space (rev (dropWhile is_space s)))"

text \<open>
  The serial port as the function meets it. Every activation of \<open>read_from_serial\<close>
  polls once; \<open>in_waiting w k\<close> is what the \<open>k\<close>-th poll yields, \<open>readline_decoded w k\<close>
  what \<open>ser.readline().decode()\<close> yields when it is called after that poll.
\<close>

record helium_port =
  in_waiting :: "nat \<Rightarrow> pyexn + nat"
  readline_decoded :: "nat \<Rightarrow> pyexn + string"

text \<open>The three kinds of value the function returns.\<close>

datatype pyret = RetStr string | RetNone | RetInt int

definition ret_of_parse :: "string option \<Rightarrow> pyret" where
  "ret_of_parse r = (case r of Some v \<Rightarrow> RetStr v | None \<Rightarrow> RetNone)"

text \<open>
  The first argument is the number of further activations the interpreter's recursion
  limit still allows; a call beyond it raises RecursionError, which the
  \<open>except serial.SerialException\<close> clause does not catch.
\<close>

fun read_from_serial :: "nat \<Rightarrow> helium_port \<Rightarrow> nat \<Rightarrow> pyexn + pyret" where
  "read_from_serial 0 ser k = Inl RecursionError"
| "read_from_serial (Suc depth) ser k =
     try_except
       (then_do (in_waiting ser k) (\<lambda>n.
          if n > 0
          then then_do (readline_decoded ser k) (\<lambda>line.
                 Inr (ret_of_parse (parse_data (py_strip line))))
          else then_do (read_from_serial depth ser (Suc k)) (\<lambda>discarded.
                 Inr RetNone)))
       is_SerialException (Inr (RetInt 0))"

text \<open>
  A poll that ends the waiting: it raises a serial exception, or it finds bytes and the
  line is then read and decoded, or reading it raises a serial exception.
\<close>

definition port_settles :: "helium_port \<Rightarrow> nat \<Rightarrow> bool" where
  "port_settles ser k =
     (case in_waiting ser k of
        Inl e \<Rightarrow> is_SerialException e
      | Inr n \<Rightarrow>
          0 < n \<and> (case readline_decoded ser k of
                     Inl e \<Rightarrow> is_SerialException e
                   | Inr line \<Rightarrow> True))"

section \<open>check_serial.py\<close>

definition INFICON_LEAK_DETECTOR_VID :: int where "INFICON_LEAK_DETECTOR_VID = 1240"
definition HELIUM_ANALYZER_VID :: int where "HELIUM_ANALYZER_VID = 42496"
definition SERIAL_PORT_VID :: int where "SERIAL_PORT_VID = 1027"

text \<open>
  The values the scan compares: a port's vendor id is an integer or \<open>None\<close>, and
  \<open>str\<close> of it is a string. \<open>==\<close> between values of different types is false.
\<close>

datatype pyval = PyInt int | PyStr string | PyNone

fun py_eq :: "pyval \<Rightarrow> pyval \<Rightarrow> bool" where
  "py_eq (PyInt a) (PyInt b) = (a = b)"
| "py_eq (PyStr a) (PyStr b) = (a = b)"
| "py_eq PyNone PyNone = True"
| "py_eq _ _ = False"

fun str_of_nat :: "nat \<Rightarrow> string" where
  "str_of_nat n =
     (if n < 10 then [char_of (48 + n)]
      else str_of_nat (n div 10) @ [char_of (48 + n mod 10)])"

fun py_str :: "pyval \<Rightarrow> string" where
  "py_str (PyInt i) = (if i < 0 then ''-'' @ str_of_nat (nat (- i)) else str_of_nat (nat i))"
| "py_str (PyStr s) = s"
| "py_str PyNone = ''None''"

record port_info =
  device :: string
  description :: string
  vid :: pyval

text \<open>The part of a device configuration that the scan writes.\<close>

record device_config =
  port :: string
  is_available :: bool

text \<open>
  What lies outside the program: whether \<open>RelaySwitch.connect\<close> succeeds on a port, and
  what opening a port, writing the stop command and reading one decoded line yields.
\<close>

record serial_world =
  relay_connect :: "string \<Rightarrow> bool"
  stop_reply :: "string \<Rightarrow> pyexn + string"

definition stop_gas_flow :: "serial_world \<Rightarrow> string \<Rightarrow> pyexn + bool" where
  "stop_gas_flow w p =
     try_except
       (then_do (stop_reply w p) (\<lambda>reply.
          let response = py_strip reply
          in if response = ''OK'' then Inr True else Inr False))
       is_SerialException (Inr False)"

text \<open>
  The first loop. The result is the variable \<open>relay_switch\<close>: \<open>None\<close>, or the object
  with the port its configuration received (\<open>None\<close> while it is not connected).
\<close>

datatype relay_switch = RelaySwitch "string option"

fun relay_scan :: "serial_world \<Rightarrow> relay_switch option \<Rightarrow> port_info list \<Rightarrow> relay_switch option" where
  "relay_scan w relay [] = relay"
| "relay_scan w relay (p # ports) =
     (if py_eq (PyStr (py_str (vid p))) (PyInt SERIAL_PORT_VID)
      then (if relay_connect w (device p)
            then Some (RelaySwitch (Some (py_strip (device p))))
            else relay_scan w (Some (RelaySwitch None)) ports)
      else relay_scan w relay ports)"

text \<open>
  The second loop. Each recognised port is reported with a device name (the message the
  branch logs), and three of the four branches write the repository's configuration.
\<close>

datatype device_label = LeakDetector | HeliumAnalyzer | MassFlowController | PressureGauge

record scan_state =
  repository :: "string \<Rightarrow> device_config"
  connected :: "(string \<times> device_label) list"
  devices :: "(string \<times> string) list"

definition register :: "string \<Rightarrow> device_label \<Rightarrow> port_info \<Rightarrow> scan_state \<Rightarrow> scan_state" where
  "register name label p st =
     st\<lparr>repository := (repository st)
            (name := (repository st name)\<lparr>port := py_strip (device p), is_available := True\<rparr>),
        connected := connected st @ [(py_strip (device p), label)]\<rparr>"

definition scan_port :: "serial_world \<Rightarrow> scan_state \<Rightarrow> port_info \<Rightarrow> pyexn + scan_state" where
  "scan_port w st0 p =
     (let st = st0\<lparr>devices := devices st0 @ [(description p, device p)]\<rparr>
      in if py_eq (vid p) (PyInt INFICON_LEAK_DETECTOR_VID)
         then Inr (register ''Leak Detector'' LeakDetector p st)
         else if py_eq (vid p) (PyInt HELIUM_ANALYZER_VID)
         then Inr (register ''Helium Analyzer'' HeliumAnalyzer p st)
         else if py_eq (vid p) (PyInt SERIAL_PORT_VID)
         then then_do (stop_gas_flow w (device p)) (\<lambda>stopped.
                if stopped
                then Inr (register ''Mass Flow Controller'' MassFlowController p st)
                else Inr (st\<lparr>connected := connected st @ [(py_strip (device p), PressureGauge)]\<rparr>))
         else Inr st)"

fun scan_remaining :: "serial_world \<Rightarrow> scan_state \<Rightarrow> port_info list \<Rightarrow> pyexn + scan_state" where
  "scan_remaining w st [] = Inr st"
| "scan_remaining w st (p # ports) = then_do (scan_port w st p) (\<lambda>st'. scan_remaining w st' ports)"

text \<open>
  \<open>get_serial_devices\<close>: the relay scan, then the scan of the remaining devices. It
  yields the relay variable as the first loop left it, and the state of the second.
\<close>

definition get_serial_devices ::
  "serial_world \<Rightarrow> (string \<Rightarrow> device_config) \<Rightarrow> port_info list
     \<Rightarrow> pyexn + (relay_switch option \<times> scan_state)" where
  "get_serial_devices w repo ports =
     (let relay = relay_scan w None ports
      in then_do (scan_remaining w \<lparr>repository = repo, connected = [], devices = []\<rparr> ports)
           (\<lambda>st. Inr (relay, st)))"

section \<open>HeliumLeakTestApp.py\<close>

text \<open>
  What \<open>get_power_on_time\<close> meets: the global \<open>leakDetector_available\<close>, the outcome of
  each call on the serial port in the order the function makes them, and the two
  built-ins applied to the reply, \<open>bytes.decode\<close> and \<open>int\<close>. Reading the configuration
  and building the settings dictionary, which precede the \<open>try\<close> block, are left out.
\<close>

record ('b, 's) leak_detector =
  leakDetector_available :: bool
  open_port :: "pyexn + unit"
  apply_settings :: "pyexn + unit"
  flushInput :: "pyexn + unit"
  write_command :: "pyexn + unit"
  readline :: "pyexn + 'b"
  decode :: "'b \<Rightarrow> pyexn + 's"
  int_of :: "'s \<Rightarrow> pyexn + int"
  flushOutput :: "pyexn + unit"

definition get_power_on_time :: "('b, 's) leak_detector \<Rightarrow> pyexn + int" where
  "get_power_on_time ld =
     (if leakDetector_available ld
      then try_except
             (then_do (open_port ld) (\<lambda>serial_port_leak_detector.
              then_do (apply_settings ld) (\<lambda>_.
              then_do (flushInput ld) (\<lambda>_.
              then_do (write_command ld) (\<lambda>_.
              then_do (try_except
                         (then_do (readline ld) (\<lambda>line.
                          then_do (decode ld line) (\<lambda>text. int_of ld text)))
                         is_ValueError (Inr 0)) (\<lambda>time_pwron.
              then_do (flushOutput ld) (\<lambda>_.
              Inr time_pwron)))))))
             is_SerialException (Inr 0)
      else Inr 0)"

section \<open>create_pdf.py: the conversion on floats\<close>

text \<open>
  The same function with the arithmetic of Python's floats made explicit. A float is a
  finite number, an infinity or a NaN. Every operation, \<open>**\<close> included, rounds its exact
  result to the format and overflows beyond the largest finite float; a format is given by
  its rounding (with unbounded exponent) and that largest float. The three inputs are
  finite floats, and the sign of a zero is not kept.
\<close>

record float_format =
  round_to :: "real \<Rightarrow> real"
  largest :: real

text \<open>
  What the results below use of a format: the rounding is monotone and idempotent, it keeps
  0, 1 and 1024, and 1024 is within range. Binary64 with rounding to nearest is such a format.
\<close>

definition float_format_ok :: "float_format \<Rightarrow> bool" where
  "float_format_ok f =
     ((\<forall>x y. x \<le> y \<longrightarrow> round_to f x \<le> round_to f y)
      \<and> (\<forall>x. round_to f (round_to f x) = round_to f x)
      \<and> round_to f 0 = 0 \<and> round_to f 1 = 1 \<and> round_to f 1024 = 1024
      \<and> 1024 \<le> largest f)"

datatype pyfloat = Fin real | PInf | NInf | NaN

text \<open>The float of an exact result: rounded, or an infinity beyond the range.\<close>

definition fin :: "float_format \<Rightarrow> real \<Rightarrow> pyfloat" where
  "fin f x =
     (let r = round_to f x
      in if largest f < r then PInf else if r < - largest f then NInf else Fin r)"

text \<open>
  Addition, subtraction, multiplication and division. An infinity times zero, a difference
  of equal infinities and a quotient of infinities are NaN; dividing by zero raises.
\<close>

fun sign_of :: "pyfloat \<Rightarrow> real" where
  "sign_of (Fin x) = x"
| "sign_of PInf = 1"
| "sign_of NInf = - 1"
| "sign_of NaN = 0"

definition signed_inf :: "real \<Rightarrow> pyfloat" where
  "signed_inf s = (if s = 0 then NaN else if 0 < s then PInf else NInf)"

fun fl_neg :: "pyfloat \<Rightarrow> pyfloat" where
  "fl_neg (Fin x) = Fin (- x)"
| "fl_neg PInf = NInf"
| "fl_neg NInf = PInf"
| "fl_neg NaN = NaN"

fun fl_add :: "float_format \<Rightarrow> pyfloat \<Rightarrow> pyfloat \<Rightarrow> pyfloat" where
  "fl_add f (Fin x) (Fin y) = fin f (x + y)"
| "fl_add f NaN b = NaN"
| "fl_add f a NaN = NaN"
| "fl_add f PInf NInf = NaN"
| "fl_add f NInf PInf = NaN"
| "fl_add f (Fin x) b = b"
| "fl_add f a b = a"

definition fl_sub :: "float_format \<Rightarrow> pyfloat \<Rightarrow> pyfloat \<Rightarrow> pyfloat" where
  "fl_sub f a b = fl_add f a (fl_neg b)"

fun fl_mul :: "float_format \<Rightarrow> pyfloat \<Rightarrow> pyfloat \<Rightarrow> pyfloat" where
  "fl_mul f (Fin x) (Fin y) = fin f (x * y)"
| "fl_mul f NaN b = NaN"
| "fl_mul f a NaN = NaN"
| "fl_mul f a b = signed_inf (sign_of a * sign_of b)"

fun fl_div :: "float_format \<Rightarrow> pyfloat \<Rightarrow> pyfloat \<Rightarrow> pyexn + pyfloat" where
  "fl_div f a (Fin y) =
     (if y = 0 then Inl ZeroDivisionError
      else (case a of
              Fin x \<Rightarrow> Inr (fin f (x / y))
            | NaN \<Rightarrow> Inr NaN
            | _ \<Rightarrow> Inr (signed_inf (sign_of a * y))))"
| "fl_div f NaN b = Inr NaN"
| "fl_div f a NaN = Inr NaN"
| "fl_div f (Fin x) b = Inr (Fin 0)"
| "fl_div f a b = Inr NaN"

text \<open>\<open>a > b\<close> and \<open>a <= b\<close>: false as soon as one side is a NaN.\<close>

fun fl_gt :: "pyfloat \<Rightarrow> pyfloat \<Rightarrow> bool" where
  "fl_gt NaN b = False"
| "fl_gt a NaN = False"
| "fl_gt (Fin x) (Fin y) = (y < x)"
| "fl_gt PInf b = (b \<noteq> PInf)"
| "fl_gt a NInf = (a \<noteq> NInf)"
| "fl_gt a b = False"

fun fl_le :: "pyfloat \<Rightarrow> pyfloat \<Rightarrow> bool" where
  "fl_le NaN b = False"
| "fl_le a NaN = False"
| "fl_le (Fin x) (Fin y) = (x \<le> y)"
| "fl_le NInf b = True"
| "fl_le a PInf = True"
| "fl_le a b = False"

text \<open>
  \<open>x ** 2\<close> raises OverflowError when a finite base overflows; \<open>x ** 0.5\<close> is a complex
  number (\<open>None\<close> here) for a negative finite base.
\<close>

fun py_pow_2 :: "float_format \<Rightarrow> pyfloat \<Rightarrow> pyexn + pyfloat" where
  "py_pow_2 f (Fin x) =
     (let r = round_to f (x ^ 2)
      in if largest f < r then Inl OverflowError else Inr (Fin r))"
| "py_pow_2 f NaN = Inr NaN"
| "py_pow_2 f a = Inr PInf"

fun py_pow_05 :: "float_format \<Rightarrow> pyfloat \<Rightarrow> pyfloat option" where
  "py_pow_05 f (Fin x) = (if x < 0 then None else Some (fin f (sqrt x)))"
| "py_pow_05 f NaN = Some NaN"
| "py_pow_05 f a = Some PInf"

text \<open>A result of the conversion: a float, or a complex number, whose value is not kept.\<close>

datatype fpnum = FpFloat pyfloat | FpComplex

fun fp_le :: "fpnum \<Rightarrow> fpnum \<Rightarrow> pyexn + bool" where
  "fp_le (FpFloat a) (FpFloat b) = Inr (fl_le a b)"
| "fp_le _ _ = Inl TypeError"

text \<open>\<open>delta_p\<close>, the factor \<open>(average_temperature / T1) ** 0.5\<close>, and the function.\<close>

definition pressure_term :: "float_format \<Rightarrow> real \<Rightarrow> pyexn + pyfloat" where
  "pressure_term f p =
     (let pb1 = fl_add f (Fin p) (fin f 1)
      in then_do (py_pow_2 f pb1) (\<lambda>pb1_2.
         then_do (py_pow_2 f (fin f PB2)) (\<lambda>pb2_2.
         then_do (py_pow_2 f (fin f PA1)) (\<lambda>pa1_2.
         then_do (py_pow_2 f (fin f PA2)) (\<lambda>pa2_2.
         fl_div f (fl_sub f pb1_2 pb2_2) (fl_sub f pa1_2 pa2_2))))))"

definition temperature_factor :: "float_format \<Rightarrow> real \<Rightarrow> pyexn + pyfloat option" where
  "temperature_factor f T =
     then_do (fl_div f (Fin T) (fin f T1)) (\<lambda>q. Inr (py_pow_05 f q))"

definition convert_he_to_air_fp :: "float_format \<Rightarrow> report \<Rightarrow> real \<Rightarrow> real \<Rightarrow> pyexn + fpnum" where
  "convert_he_to_air_fp f rd he_leak_rate avg_temperature =
     then_do (pressure_term f (pressure_difference rd)) (\<lambda>delta_p.
     then_do (fl_div f (fin f ETA_HE) (fin f ETA_AIR)) (\<lambda>ratio.
       let air_leakrate = fl_mul f (Fin he_leak_rate) ratio;
           air_leakrate = (if fl_gt delta_p (Fin 0) then fl_mul f air_leakrate delta_p
                           else air_leakrate)
       in if rate_unit rd = unit_SCCM
          then (let air_leakrate_cm3_min = fl_mul f air_leakrate (fin f 60)
                in then_do (temperature_factor f avg_temperature) (\<lambda>factor.
                     case factor of
                       None \<Rightarrow> Inr FpComplex
                     | Some t \<Rightarrow> Inr (FpFloat (fl_mul f air_leakrate_cm3_min t))))
          else Inr (FpFloat air_leakrate)))"


section \<open>Sample inputs\<close>

text \<open>Concrete reports, states, ports and devices on which the results below are run.\<close>

definition example_report :: "string \<Rightarrow> real \<Rightarrow> string \<Rightarrow> report" where
  "example_report medium p u =
     \<lparr>test_medium = medium, report_note = '''', image = '''', pressure_difference = p,
      rate_unit = u, graph_type = 0\<rparr>"

definition example_state :: "report \<Rightarrow> pdf_state" where
  "example_state rd = \<lparr>report_data = rd, element_listx = [], element_listy = []\<rparr>"

definition example_measurement :: "real \<Rightarrow> real \<Rightarrow> real \<Rightarrow> measurement" where
  "example_measurement v mx T =
     \<lparr>panel_no = ''1'', location_no = ''1'', time_in_seconds = 30,
      value_mbarl_second = v, max_value = mx, average_temperature = T\<rparr>"

definition example_specimen :: specimen where
  "example_specimen = \<lparr>x_value = [0, 1], y_value = [2, 3]\<rparr>"

definition example_line :: string where
  "example_line = ''He 23.5% O2 21.2% Ti 25.0~C 1012.3 hPa 2024/05/14 15:30:00''"

text \<open>A port that is empty at the first poll and holds a line from the second poll on.\<close>

definition late_port :: helium_port where
  "late_port =
     \<lparr>in_waiting = (\<lambda>k. if k = 0 then Inr 0 else Inr 60),
      readline_decoded = (\<lambda>k. Inr example_line)\<rparr>"

text \<open>A port that holds a line at once, one that never holds any, one that is unplugged.\<close>

definition full_port :: helium_port where
  "full_port = \<lparr>in_waiting = (\<lambda>k. Inr 60), readline_decoded = (\<lambda>k. Inr example_line)\<rparr>"

definition empty_port :: helium_port where
  "empty_port = \<lparr>in_waiting = (\<lambda>k. Inr 0), readline_decoded = (\<lambda>k. Inr [])\<rparr>"

definition broken_port :: helium_port where
  "broken_port =
     \<lparr>in_waiting = (\<lambda>k. Inl SerialException), readline_decoded = (\<lambda>k. Inl SerialException)\<rparr>"

text \<open>
  A stand-in for \<open>int\<close> on the text of a decimal numeral with an optional sign and
  whitespace around it; it rejects every other text, numerals with digit-group underscores
  included. The whitespace \<open>int\<close> passes over is that of \<open>str.strip\<close> without the four
  separators 28 to 31. It serves the sample leak detector only.
\<close>

definition is_int_space :: "char \<Rightarrow> bool" where
  "is_int_space c = (of_char c \<in> set [9, 10, 11, 12, 13, 32, 133, 160 :: nat])"

definition int_of_decimal :: "string \<Rightarrow> pyexn + int" where
  "int_of_decimal s =
     (let t = rev (dropWhile is_int_space (rev (dropWhile is_int_space s)));
          negative = (t \<noteq> [] \<and> hd t = CHR ''-'');
          ds = (if t \<noteq> [] \<and> (hd t = CHR ''-'' \<or> hd t = CHR ''+'') then tl t else t)
      in if ds \<noteq> [] \<and> list_all is_digit ds
         then Inr ((if negative then - 1 else 1)
                   * foldl (\<lambda>a c. 10 * a + (int (of_char c) - 48)) 0 ds)
         else Inl ValueError)"

definition example_detector ::
  "bool \<Rightarrow> pyexn + unit \<Rightarrow> pyexn + unit \<Rightarrow> string \<Rightarrow> (string, string) leak_detector" where
  "example_detector available opened applied reply =
     \<lparr>leakDetector_available = available, open_port = opened, apply_settings = applied,
      flushInput = Inr (), write_command = Inr (), readline = Inr reply,
      decode = (\<lambda>b. Inr b), int_of = int_of_decimal, flushOutput = Inr ()\<rparr>"

definition example_world :: serial_world where
  "example_world = \<lparr>relay_connect = (\<lambda>p. True), stop_reply = (\<lambda>p. Inr ''OK'')\<rparr>"

definition example_port :: port_info where
  "example_port = \<lparr>device = ''COM3'', description = ''USB Serial Port'', vid = PyInt 1027\<rparr>"

definition example_repository :: "string \<Rightarrow> device_config" where
  "example_repository name = \<lparr>port = '''', is_available = False\<rparr>"

text \<open>
  A small float format: multiples of 1/1024, rounded to the nearest (ties upwards), up to
  1048576.
\<close>

definition grid_format :: float_format where
  "grid_format = \<lparr>round_to = (\<lambda>x. of_int \<lfloor>x * 1024 + 1 / 2\<rfloor> / 1024), largest = 1048576\<rparr>"

section \<open>Results on create_pdf.py\<close>

subsection \<open>The conversion formula\<close>

lemma delta_p_eq: "((p + 1) ^ 2 - PB2 ^ 2) / (PA1 ^ 2 - PA2 ^ 2) = p * (p + 2)" for p :: real
  by (simp add: PB2_def PA1_def PA2_def power2_eq_square algebra_simps)

lemma convert_unfold:
  "convert_he_to_air rd h T =
     (let a = (if 0 < pressure_difference rd * (pressure_difference rd + 2)
               then h * (ETA_HE / ETA_AIR) * (pressure_difference rd * (pressure_difference rd + 2))
               else h * (ETA_HE / ETA_AIR))
      in if rate_unit rd = unit_SCCM then py_mul (a * 60) (py_pow_half (T / T1)) else PyFloat a)"
  unfolding convert_he_to_air_def Let_def delta_p_eq by simp

lemma unit_neq: "unit_cm3_min \<noteq> unit_SCCM"
  by (simp add: unit_cm3_min_def unit_SCCM_def)

text \<open>
  Claim C1, as amended. With a pressure difference of zero the factor \<open>delta_p\<close> is zero and
  is not applied; when moreover the rate unit is not "SCCM", \<open>convert_he_to_air\<close> returns
  the helium leak rate times the viscosity ratio \<open>ETA_HE / ETA_AIR = 19.6 / 18.19\<close>, for
  every leak rate and every temperature.
\<close>

theorem convert_he_to_air_zero_pressure:
  "pressure_difference rd = 0 \<Longrightarrow> rate_unit rd \<noteq> unit_SCCM \<Longrightarrow>
     convert_he_to_air rd h T = PyFloat (h * (ETA_HE / ETA_AIR))
     \<and> ETA_HE / ETA_AIR = 19.6 / 18.19"
  by (simp add: convert_unfold ETA_HE_def ETA_AIR_def)

theorem convert_he_to_air_zero_pressure_witness:
  "pressure_difference (example_report ''Air'' 0 unit_cm3_min) = 0
   \<and> rate_unit (example_report ''Air'' 0 unit_cm3_min) \<noteq> unit_SCCM
   \<and> convert_he_to_air (example_report ''Air'' 0 unit_cm3_min) 2 293
       = PyFloat (2 * (ETA_HE / ETA_AIR))"
  using convert_he_to_air_zero_pressure [of "example_report ''Air'' 0 unit_cm3_min" 2 293]
  by (simp add: example_report_def unit_neq)

text \<open>
  As first stated, for every report with a pressure difference of zero, the claim fails:
  with the rate unit "SCCM" the result is scaled by 60 and by the temperature correction.
  At a leak rate of 1 and 273 K it is sixty times the viscosity ratio.
\<close>

theorem convert_he_to_air_zero_pressure_sccm:
  "pressure_difference (example_report ''Air'' 0 unit_SCCM) = 0
   \<and> convert_he_to_air (example_report ''Air'' 0 unit_SCCM) 1 273 = PyFloat (60 * (19.6 / 18.19))
   \<and> convert_he_to_air (example_report ''Air'' 0 unit_SCCM) 1 273 \<noteq> PyFloat (1 * (19.6 / 18.19))"
  by (simp add: example_report_def convert_unfold py_pow_half_def T1_def ETA_HE_def ETA_AIR_def)

subsection \<open>The conversion on floats\<close>



lemma ok_consts:
  "float_format_ok f \<Longrightarrow> round_to f 0 = 0 \<and> round_to f 1 = 1 \<and> round_to f 1024 = 1024
     \<and> 1024 \<le> largest f"
  by (simp add: float_format_ok_def)










lemma then_do_Inr: "then_do (Inr v) g = g v"
  by (simp add: then_do_def)

lemma then_do_Inl: "then_do (Inl e) g = Inl e"
  by (simp add: then_do_def)

lemma pressure_term_simp:
  assumes ok: "float_format_ok f"
  shows "pressure_term f p =
     then_do (py_pow_2 f (fin f (p + 1))) (\<lambda>a. fl_div f (fl_sub f a (Fin 1)) (Fin 1))"
proof -
  note c = ok_consts [OF ok]
  have one: "fin f 1 = Fin 1" and zero: "fin f 0 = Fin 0"
    using c by (simp_all add: fin_def Let_def)
  have p1: "py_pow_2 f (Fin 1) = Inr (Fin 1)" and p0: "py_pow_2 f (Fin 0) = Inr (Fin 0)"
    using c by (simp_all add: Let_def)
  have s: "fl_sub f (Fin 1) (Fin 0) = Fin 1"
    using one by (simp add: fl_sub_def)
  have lits: "fin f PB2 = Fin 1" "fin f PA1 = Fin 1" "fin f PA2 = Fin 0"
    using one zero by (simp_all add: PB2_def PA1_def PA2_def)
  show ?thesis
    unfolding pressure_term_def Let_def
    by (simp only: lits one fl_add.simps p1 p0 s then_do_Inr)
qed

text \<open>At a pressure difference of zero the term is zero in every format, so the guard fails.\<close>

lemma pressure_term_zero:
  assumes ok: "float_format_ok f"
  shows "pressure_term f 0 = Inr (Fin 0) \<and> \<not> fl_gt (Fin 0) (Fin 0)"
proof -
  note c = ok_consts [OF ok]
  have "fin f (0 + 1) = Fin 1" "fin f (1 - 1) = Fin 0" "fin f (0 / 1) = Fin 0"
    using c by (simp_all add: fin_def Let_def)
  moreover have "py_pow_2 f (Fin 1) = Inr (Fin 1)" using c by (simp add: Let_def)
  ultimately show ?thesis
    unfolding pressure_term_simp [OF ok] by (simp add: then_do_Inr fl_sub_def)
qed





lemma grid_round: "round_to grid_format x = of_int \<lfloor>x * 1024 + 1 / 2\<rfloor> / 1024"
  by (simp add: grid_format_def)

lemma grid_largest: "largest grid_format = 1048576"
  by (simp add: grid_format_def)

lemma grid_format_ok: "float_format_ok grid_format"
proof -
  have mono: "round_to grid_format x \<le> round_to grid_format y" if "x \<le> y" for x y
  proof -
    have "\<lfloor>x * 1024 + 1 / 2\<rfloor> \<le> \<lfloor>y * 1024 + 1 / 2\<rfloor>" using that by (intro floor_mono) simp
    then show ?thesis unfolding grid_round by (simp add: divide_right_mono)
  qed
  have idem: "round_to grid_format (round_to grid_format x) = round_to grid_format x" for x
  proof -
    have "\<lfloor>of_int \<lfloor>x * 1024 + 1 / 2\<rfloor> + (1 / 2 :: real)\<rfloor> = \<lfloor>x * 1024 + 1 / 2\<rfloor>"
      by linarith
    then show ?thesis unfolding grid_round by simp
  qed
  show ?thesis
    unfolding float_format_ok_def
    using mono idem by (simp add: grid_format_def)
qed



lemma pt_tiny: "pressure_term grid_format (1 / 4096) = Inr (Fin 0)"
  unfolding pressure_term_simp [OF grid_format_ok]
  by (simp add: fin_def grid_round grid_largest Let_def then_do_Inr fl_sub_def)

lemma pt_quarter: "pressure_term grid_format (1 / 4) = Inr (Fin (9 / 16))"
  unfolding pressure_term_simp [OF grid_format_ok]
  by (simp add: fin_def grid_round grid_largest Let_def then_do_Inr fl_sub_def power2_eq_square)

lemma pt_big: "pressure_term grid_format 2000 = Inl OverflowError"
  unfolding pressure_term_simp [OF grid_format_ok]
  by (simp add: fin_def grid_round grid_largest Let_def then_do_Inl)


lemma ratio_grid: "fl_div grid_format (fin grid_format ETA_HE) (fin grid_format ETA_AIR) = Inr (Fin (1103 / 1024))"
  by (simp add: ETA_HE_def ETA_AIR_def fin_def grid_round grid_largest Let_def)




text \<open>
  Why the term has to be positive as computed, and computed at all. In the small format a
  pressure difference of 1/4096 is lost when 1 is added, so the factor is left out and
  the result exceeds the one for 1/4; a pressure difference of 2000 overflows the square.
\<close>

lemma convert_fp_tiny:
  "pressure_term grid_format (1 / 4096) = Inr (Fin 0)
   \<and> convert_he_to_air_fp grid_format (example_report ''Air'' (1 / 4096) unit_cm3_min) 1 293
       = Inr (FpFloat (Fin (1103 / 1024)))
   \<and> convert_he_to_air_fp grid_format (example_report ''Air'' (1 / 4) unit_cm3_min) 1 293
       = Inr (FpFloat (Fin (155 / 256)))
   \<and> fp_le (FpFloat (Fin (1103 / 1024))) (FpFloat (Fin (155 / 256))) = Inr False"
  using pt_tiny pt_quarter ratio_grid
  by (simp add: convert_he_to_air_fp_def example_report_def then_do_Inr Let_def
      fin_def grid_round grid_largest unit_neq)

lemma convert_fp_overflow:
  "convert_he_to_air_fp grid_format (example_report ''Air'' 2000 unit_cm3_min) 1 293
     = Inl OverflowError"
  using pt_big by (simp add: convert_he_to_air_fp_def example_report_def then_do_Inl)

text \<open>
  Claim C7. The conversion is deterministic and stateless: two calls with the same helium
  leak rate and temperature, in environments whose reports agree on the pressure difference
  and on the rate unit, return the same value, whatever else the environments hold, and
  each call leaves its environment as it found it.
\<close>

theorem convert_he_to_air_deterministic:
  assumes "pressure_difference (report_data s1) = pressure_difference (report_data s2)"
    and "rate_unit (report_data s1) = rate_unit (report_data s2)"
  shows "fst (convert_he_to_air_step s1 h T) = fst (convert_he_to_air_step s2 h T)
     \<and> snd (convert_he_to_air_step s1 h T) = s1 \<and> snd (convert_he_to_air_step s2 h T) = s2"
  using assms by (simp add: convert_he_to_air_step_def convert_he_to_air_def)

theorem convert_he_to_air_deterministic_witness:
  "pressure_difference (report_data (example_state (example_report ''Air'' 1 unit_SCCM)))
     = pressure_difference (report_data (example_state (example_report ''He'' 1 unit_SCCM)))
   \<and> rate_unit (report_data (example_state (example_report ''Air'' 1 unit_SCCM)))
     = rate_unit (report_data (example_state (example_report ''He'' 1 unit_SCCM)))
   \<and> fst (convert_he_to_air_step (example_state (example_report ''Air'' 1 unit_SCCM)) 1 273)
     = fst (convert_he_to_air_step (example_state (example_report ''He'' 1 unit_SCCM)) 1 273)
   \<and> snd (convert_he_to_air_step (example_state (example_report ''Air'' 1 unit_SCCM)) 1 273)
     = example_state (example_report ''Air'' 1 unit_SCCM)"
  using convert_he_to_air_deterministic
    [of "example_state (example_report ''Air'' 1 unit_SCCM)"
        "example_state (example_report ''He'' 1 unit_SCCM)" 1 273]
  by (simp add: example_state_def example_report_def)

subsection \<open>The direction labels\<close>

text \<open>
  Claim C3. \<open>get_elem_direction_value\<close> returns the documented label for each of the codes
  "0" to "5" and the empty string for every other string.
\<close>

theorem get_elem_direction_value_spec:
  "get_elem_direction_value ''0'' = ''Nut facing upwards''
   \<and> get_elem_direction_value ''1'' = ''Nut facing downwards''
   \<and> get_elem_direction_value ''2'' = ''Capnut facing upwards''
   \<and> get_elem_direction_value ''3'' = ''Capnut facing downwards''
   \<and> get_elem_direction_value ''4'' = ''Bolt facing upwards''
   \<and> get_elem_direction_value ''5'' = ''Bolt facing downwards''
   \<and> (\<forall>d. d \<notin> {''0'', ''1'', ''2'', ''3'', ''4'', ''5''} \<longrightarrow> get_elem_direction_value d = '''')"
  by (simp add: get_elem_direction_value_def)

theorem get_elem_direction_value_spec_witness:
  "''6'' \<notin> {''0'', ''1'', ''2'', ''3'', ''4'', ''5''} \<and> get_elem_direction_value ''6'' = ''''
   \<and> ''05'' \<notin> {''0'', ''1'', ''2'', ''3'', ''4'', ''5''} \<and> get_elem_direction_value ''05'' = ''''
   \<and> get_elem_direction_value ''3'' = ''Capnut facing downwards''"
  using get_elem_direction_value_spec by simp

subsection \<open>The values placed in the report\<close>

lemma conversion_loop_all:
  "rate_unit rd = unit_cm3_min \<or> test_medium rd = ''Air'' \<Longrightarrow>
     conversion_loop rd flag var ms =
       (map (convert_measurement rd) ms,
        if ms = [] then var else Some (convert_measurement rd (last ms)))"
  by (induction ms arbitrary: flag var) (auto simp: Let_def)

lemma df_list_loop_floats:
  "\<forall>m\<in>set rows. \<exists>x. pm_max_value m = PyFloat x \<Longrightarrow>
     df_list_loop var rows = Inr (if rows = [] then var else Some (last rows))"
  by (induction rows arbitrary: var) auto

lemma convert_series_plain:
  "test_medium rd \<noteq> ''Air'' \<Longrightarrow>
     convert_series rd var ys =
       Inr (map (\<lambda>y. PyFloat (if rate_unit rd = unit_cm3_min then y * 60 else y)) ys)"
  by (induction ys) (auto simp: Let_def)



lemma load_specimens_ok:
  "\<forall>sp\<in>set sps. convert_series (report_data s) var (y_value sp) = Inr (f (y_value sp)) \<Longrightarrow>
     load_specimens s var sps =
       Inr (s\<lparr>element_listy := element_listy s @ map (\<lambda>sp. f (y_value sp)) sps,
              element_listx := element_listx s @ map x_value sps\<rparr>)"
proof (induction sps arbitrary: s)
  case Nil
  then show ?case by simp
next
  case (Cons sp sps)
  let ?s1 = "s\<lparr>element_listy := element_listy s @ [f (y_value sp)],
               element_listx := element_listx s @ [x_value sp]\<rparr>"
  have "\<forall>sp\<in>set sps. convert_series (report_data ?s1) var (y_value sp) = Inr (f (y_value sp))"
    using Cons.prems by simp
  from Cons.IH[OF this] show ?case using Cons.prems by simp
qed


lemma convert_measurement_helium_min:
  "test_medium rd = ''He'' \<Longrightarrow> rate_unit rd = unit_cm3_min \<Longrightarrow>
     convert_measurement rd m =
       \<lparr>pm_panel_no = panel_no m, pm_location_no = location_no m,
        pm_time_in_seconds = time_in_seconds m,
        pm_value_mbarl_second = PyFloat (60 * value_mbarl_second m),
        pm_max_value = PyFloat (60 * max_value m),
        pm_average_temperature = average_temperature m\<rparr>"
  by (simp add: convert_measurement_def scale_measurement_def)

text \<open>
  Claim C6. When the test medium is "He" and the rate unit is \<open>unit_cm3_min\<close> (cubic centimetres per minute), the data path of
  \<open>create_pdf\<close> succeeds, and every leak rate it hands on is exactly 60 times the stored
  per-second value: the \<open>value_mbarl_second\<close> and the \<open>max_value\<close> of each measurement,
  and every point of every specimen's y-series. Nothing else changes.
\<close>

theorem helium_cm3_min_times_60:
  assumes "test_medium (report_data s) = ''He''" and "rate_unit (report_data s) = unit_cm3_min"
  shows "create_pdf_data s measurements specimens =
     Inr (map (\<lambda>m. \<lparr>pm_panel_no = panel_no m, pm_location_no = location_no m,
                     pm_time_in_seconds = time_in_seconds m,
                     pm_value_mbarl_second = PyFloat (60 * value_mbarl_second m),
                     pm_max_value = PyFloat (60 * max_value m),
                     pm_average_temperature = average_temperature m\<rparr>) measurements,
          s\<lparr>element_listx := map x_value specimens,
            element_listy := map (\<lambda>sp. map (\<lambda>y. PyFloat (60 * y)) (y_value sp)) specimens\<rparr>)"
proof -
  let ?rd = "report_data s"
  let ?rows = "map (convert_measurement ?rd) measurements"
  let ?s0 = "s\<lparr>element_listx := [], element_listy := []\<rparr>"
  let ?var = "if measurements = [] then None else Some (convert_measurement ?rd (last measurements))"
  have rows: "?rows = map (\<lambda>m. \<lparr>pm_panel_no = panel_no m, pm_location_no = location_no m,
                     pm_time_in_seconds = time_in_seconds m,
                     pm_value_mbarl_second = PyFloat (60 * value_mbarl_second m),
                     pm_max_value = PyFloat (60 * max_value m),
                     pm_average_temperature = average_temperature m\<rparr>) measurements"
    using assms by (simp add: convert_measurement_helium_min)
  have loop: "conversion_loop ?rd True None measurements = (?rows, ?var)"
    using assms(2) by (simp add: conversion_loop_all)
  have "\<forall>m\<in>set ?rows. \<exists>x. pm_max_value m = PyFloat x"
    using assms by (auto simp: convert_measurement_helium_min)
  from df_list_loop_floats[OF this]
  obtain v where df: "df_list_loop ?var ?rows = Inr v"
    by blast
  have he: "test_medium ?rd \<noteq> ''Air''" using assms(1) by simp
  have "\<forall>sp\<in>set specimens. convert_series (report_data ?s0) v (y_value sp)
           = Inr ((map (\<lambda>y. PyFloat (60 * y))) (y_value sp))"
    using assms(2) he by (simp add: convert_series_plain mult.commute)
  from load_specimens_ok[OF this]
  have load: "load_data_from_database_pdf s v specimens =
      Inr (s\<lparr>element_listx := map x_value specimens,
            element_listy := map (\<lambda>sp. map (\<lambda>y. PyFloat (60 * y)) (y_value sp)) specimens\<rparr>)"
    by (simp add: load_data_from_database_pdf_def)
  from df show ?thesis
    unfolding create_pdf_data_def loop rows[symmetric] by (simp add: load)
qed

theorem helium_cm3_min_times_60_witness:
  "test_medium (report_data (example_state (example_report ''He'' 0 unit_cm3_min))) = ''He''
   \<and> rate_unit (report_data (example_state (example_report ''He'' 0 unit_cm3_min))) = unit_cm3_min
   \<and> create_pdf_data (example_state (example_report ''He'' 0 unit_cm3_min))
        [example_measurement 2 5 293] [example_specimen]
      = Inr ([\<lparr>pm_panel_no = ''1'', pm_location_no = ''1'', pm_time_in_seconds = 30,
               pm_value_mbarl_second = PyFloat 120, pm_max_value = PyFloat 300,
               pm_average_temperature = 293\<rparr>],
             \<lparr>report_data = example_report ''He'' 0 unit_cm3_min,
              element_listx = [[0, 1]], element_listy = [[PyFloat 120, PyFloat 180]]\<rparr>)"
  using helium_cm3_min_times_60
    [of "example_state (example_report ''He'' 0 unit_cm3_min)"
        "[example_measurement 2 5 293]" "[example_specimen]"]
  by (simp add: example_state_def example_report_def example_measurement_def
      example_specimen_def)









section \<open>Results on helium.py\<close>

subsection \<open>The matcher against the grammar\<close>

lemma match_here_sound:
  "match_here p s = Some (segs, rest) \<Longrightarrow> s = concat segs @ rest \<and> list_all2 piece_ok p segs"
proof (induction p s arbitrary: segs rest rule: match_here.induct)
  case (1 s)
  then show ?case by simp
next
  case (2 c r)
  then show ?case by simp
next
  case (3 c r x xs)
  then show ?case by (auto split: if_splits option.splits)
next
  case (4 c r)
  then show ?case by simp
next
  case (5 c r x xs)
  from "5.prems" obtain segs' where
    c: "in_class c x" and m: "match_here (Star c # r) xs = Some (segs', rest)"
    and s: "segs = cons_first x segs'"
    by (auto split: if_splits option.splits)
  from "5.IH"[OF c m] have ih: "xs = concat segs' @ rest" "list_all2 piece_ok (Star c # r) segs'"
    by simp_all
  from ih(2) obtain seg tl where segs': "segs' = seg # tl" "list_all (in_class c) seg" "list_all2 piece_ok r tl"
    by (auto simp: list_all2_Cons1)
  show ?case using ih(1) c s segs' by simp
next
  case (6 c r)
  then show ?case by (auto split: option.splits)
next
  case (7 c r x xs)
  show ?case
  proof (cases "if in_class c x then match_here (Star c # r) xs else None")
    case None
    with "7.prems" obtain segs' where m: "match_here r (x # xs) = Some (segs', rest)" and s: "segs = [] # segs'"
      by (auto split: option.splits)
    from "7.IH"(2)[OF None m] show ?thesis using s by simp
  next
    case (Some a)
    then obtain segs' rest' where a: "a = (segs', rest')" by (cases a)
    from Some a have c: "in_class c x" and m: "match_here (Star c # r) xs = Some (segs', rest')"
      by (auto split: if_splits)
    from "7.prems" Some a have s: "segs = cons_first x segs'" "rest = rest'" by auto
    from "7.IH"(1)[OF c m] have ih: "xs = concat segs' @ rest'" "list_all2 piece_ok (Star c # r) segs'"
      by simp_all
    from ih(2) obtain seg tl where segs': "segs' = seg # tl" "list_all (in_class c) seg" "list_all2 piece_ok r tl"
      by (auto simp: list_all2_Cons1)
    show ?thesis using ih(1) c s segs' by simp
  qed
qed

lemma match_here_complete:
  "s = concat segs @ rest \<Longrightarrow> list_all2 piece_ok p segs \<Longrightarrow> match_here p s \<noteq> None"
proof (induction p s arbitrary: segs rest rule: match_here.induct)
  case (1 s)
  then show ?case by simp
next
  case (2 c r)
  from "2.prems"(2) obtain seg tl where segs: "segs = seg # tl" "piece_ok (One c) seg"
    by (auto simp: list_all2_Cons1)
  from segs(2) have "seg \<noteq> []" by (cases seg) auto
  with "2.prems"(1) segs(1) show ?case by simp
next
  case (3 c r x xs)
  from "3.prems"(2) obtain seg tl where segs: "segs = seg # tl" "piece_ok (One c) seg" "list_all2 piece_ok r tl"
    by (auto simp: list_all2_Cons1)
  from segs(2) obtain y where y: "seg = [y]" "in_class c y" by (auto split: list.splits)
  with "3.prems"(1) segs have x: "x = y" "xs = concat tl @ rest" by simp_all
  from "3.IH"[OF _ x(2) segs(3)] x y have "match_here r xs \<noteq> None" by simp
  then show ?case using x y by auto
next
  case (4 c r)
  then show ?case by (auto simp: list_all2_Cons1)
next
  case (5 c r x xs)
  from "5.prems"(2) obtain seg tl where segs: "segs = seg # tl" "seg \<noteq> []" "list_all (in_class c) seg" "list_all2 piece_ok r tl"
    by (auto simp: list_all2_Cons1)
  from segs(2) obtain y ys where y: "seg = y # ys" by (cases seg) auto
  with "5.prems"(1) segs have x: "x = y" "xs = concat (ys # tl) @ rest" "in_class c x" by simp_all
  have "list_all2 piece_ok (Star c # r) (ys # tl)" using segs y by simp
  from "5.IH"[OF x(3) x(2) this] show ?case using x(3) by auto
next
  case (6 c r)
  from "6.prems"(2) obtain seg tl where segs: "segs = seg # tl" "list_all2 piece_ok r tl"
    by (auto simp: list_all2_Cons1)
  with "6.prems"(1) have "[] = concat tl @ rest" by simp
  from "6.IH"[OF this segs(2)] show ?case by auto
next
  case (7 c r x xs)
  from "7.prems"(2) obtain seg tl where segs: "segs = seg # tl" "list_all (in_class c) seg" "list_all2 piece_ok r tl"
    by (auto simp: list_all2_Cons1)
  show ?case
  proof (cases "if in_class c x then match_here (Star c # r) xs else None")
    case (Some a)
    then show ?thesis by (auto split: prod.splits)
  next
    case None
    show ?thesis
    proof (cases seg)
      case Nil
      with "7.prems"(1) segs have "x # xs = concat tl @ rest" by simp
      from "7.IH"(2)[OF None this segs(3)] show ?thesis using None by (auto split: prod.splits)
    next
      case (Cons y ys)
      with "7.prems"(1) segs have x: "x = y" "xs = concat (ys # tl) @ rest" "in_class c x" by simp_all
      have "list_all2 piece_ok (Star c # r) (ys # tl)" using segs Cons by simp
      from "7.IH"(1)[OF x(3) x(2) this] None x(3) show ?thesis by simp
    qed
  qed
qed

lemma match_here_None_iff:
  "match_here p s = None \<longleftrightarrow> \<not> (\<exists>w post. s = w @ post \<and> in_lang p w)"
proof
  assume n: "match_here p s = None"
  show "\<not> (\<exists>w post. s = w @ post \<and> in_lang p w)"
  proof
    assume "\<exists>w post. s = w @ post \<and> in_lang p w"
    then obtain segs post where "s = concat segs @ post" "list_all2 piece_ok p segs"
      by (auto simp: in_lang_def)
    from match_here_complete[OF this] n show False by simp
  qed
next
  assume a: "\<not> (\<exists>w post. s = w @ post \<and> in_lang p w)"
  show "match_here p s = None"
  proof (rule ccontr)
    assume "match_here p s \<noteq> None"
    then obtain segs rest where "match_here p s = Some (segs, rest)" by auto
    from match_here_sound[OF this] a show False by (auto simp: in_lang_def)
  qed
qed

lemma re_search_None_iff:
  "re_search p s = None \<longleftrightarrow> (\<forall>pre t. s = pre @ t \<longrightarrow> match_here p t = None)"
proof (induction s)
  case Nil
  then show ?case by simp
next
  case (Cons x xs)
  show ?case
  proof (cases "match_here p (x # xs)")
    case None
    have "(\<forall>pre t. x # xs = pre @ t \<longrightarrow> match_here p t = None)
          \<longleftrightarrow> (\<forall>pre t. xs = pre @ t \<longrightarrow> match_here p t = None)"
      using None by (auto simp: Cons_eq_append_conv) 
    then show ?thesis using None Cons.IH by simp
  next
    case (Some a)
    then have "re_search p (x # xs) \<noteq> None" by (auto split: prod.splits)
    moreover have "\<not> (\<forall>pre t. x # xs = pre @ t \<longrightarrow> match_here p t = None)"
      using Some by (metis append_Nil option.distinct(1))
    ultimately show ?thesis by blast
  qed
qed

lemma re_search_Some:
  "re_search p s = Some segs \<Longrightarrow>
     \<exists>pre rest. s = pre @ concat segs @ rest \<and> match_here p (concat segs @ rest) = Some (segs, rest)
        \<and> (\<forall>pre1 pre2. pre = pre1 @ pre2 \<and> pre2 \<noteq> [] \<longrightarrow> match_here p (pre2 @ concat segs @ rest) = None)"
proof (induction s)
  case Nil
  then obtain rest where m: "match_here p [] = Some (segs, rest)" by auto
  from match_here_sound[OF m] have e: "concat segs @ rest = []" by simp
  have "[] = [] @ concat segs @ rest" using e by simp
  moreover have "match_here p (concat segs @ rest) = Some (segs, rest)" using m by (simp only: e)
  moreover have "\<forall>pre1 pre2. [] = pre1 @ pre2 \<and> pre2 \<noteq> [] \<longrightarrow> match_here p (pre2 @ concat segs @ rest) = None"
    by simp
  ultimately show ?case by blast
next
  case (Cons x xs)
  show ?case
  proof (cases "match_here p (x # xs)")
    case None
    with Cons.prems have "re_search p xs = Some segs" by simp
    from Cons.IH[OF this] obtain pre rest where
      ih: "xs = pre @ concat segs @ rest" "match_here p (concat segs @ rest) = Some (segs, rest)"
        "\<forall>pre1 pre2. pre = pre1 @ pre2 \<and> pre2 \<noteq> [] \<longrightarrow> match_here p (pre2 @ concat segs @ rest) = None"
      by blast
    have "\<forall>pre1 pre2. x # pre = pre1 @ pre2 \<and> pre2 \<noteq> [] \<longrightarrow> match_here p (pre2 @ concat segs @ rest) = None"
    proof (intro allI impI)
      fix pre1 pre2 assume a: "x # pre = pre1 @ pre2 \<and> pre2 \<noteq> []"
      show "match_here p (pre2 @ concat segs @ rest) = None"
      proof (cases pre1)
        case Nil
        with a have "pre2 = x # pre" by simp
        then show ?thesis using None ih(1) by simp
      next
        case (Cons y ys)
        with a have "pre = ys @ pre2" by simp
        with ih(3) a show ?thesis by blast
      qed
    qed
    with ih(1,2) show ?thesis by (intro exI[of _ "x # pre"] exI[of _ rest]) simp
  next
    case (Some a)
    with Cons.prems obtain rest where m: "match_here p (x # xs) = Some (segs, rest)"
      by (auto split: prod.splits)
    from match_here_sound[OF m] have "x # xs = concat segs @ rest" by simp
    with m show ?thesis by (intro exI[of _ "[]"] exI[of _ rest]) simp
  qed
qed


lemma piece_ok_One_Lit: "piece_ok (One (Lit a)) w \<longleftrightarrow> w = [a]"
  by (cases w rule: list.exhaust; cases "tl w") (auto split: list.splits)

lemma pattern_pieces:
  assumes "list_all2 piece_ok pattern segs"
  shows "\<exists>ws d1 d2 tsegs. segs = [''H'', ''e'', ws, d1, ''.'', d2] @ tsegs
           \<and> ws \<noteq> [] \<and> list_all is_space ws
           \<and> d1 \<noteq> [] \<and> list_all is_digit d1 \<and> d2 \<noteq> [] \<and> list_all is_digit d2
           \<and> list_all2 piece_ok pattern_tail tsegs"
proof -
  have p: "pattern = One (Lit CHR ''H'') # One (Lit CHR ''e'') # Plus Space # Plus Digit
             # One (Lit CHR ''.'') # Plus Digit # pattern_tail"
    by (simp add: pattern_def pattern_head_def decimal_def lits_def)
  from assms[unfolded p] obtain z1 z2 z3 z4 z5 z6 tsegs where
    segs: "segs = z1 # z2 # z3 # z4 # z5 # z6 # tsegs"
    and z: "piece_ok (One (Lit CHR ''H'')) z1" "piece_ok (One (Lit CHR ''e'')) z2"
      "piece_ok (Plus Space) z3" "piece_ok (Plus Digit) z4"
      "piece_ok (One (Lit CHR ''.'')) z5" "piece_ok (Plus Digit) z6"
    and t: "list_all2 piece_ok pattern_tail tsegs"
    unfolding list_all2_Cons1 by blast
  from z(1,2,5) have "z1 = ''H''" "z2 = ''e''" "z5 = ''.''"
    by (simp_all only: piece_ok_One_Lit)
  moreover have "list_all is_space z3" "list_all is_digit z4" "list_all is_digit z6"
    using z(3,4,6) by (simp_all add: list_all_iff)
  ultimately show ?thesis using segs z(3,4,6) t by auto
qed

lemma group1_pieces:
  "group1 ([''H'', ''e'', ws, d1, ''.'', d2] @ tsegs) = d1 @ ''.'' @ d2"
  by (simp add: group1_def pattern_head_def decimal_def lits_def)

text \<open>The first group of a match is determined by the text: the classes around it are disjoint.\<close>

lemma digit_not_space: "is_digit c \<Longrightarrow> \<not> is_space c"
  by (auto simp: is_digit_def is_space_def)

lemma run_unique:
  assumes "list_all P xs" and "list_all P xs'"
    and "xs @ y # ys = xs' @ y' # ys'" and "\<not> P y" and "\<not> P y'"
  shows "xs = xs' \<and> y # ys = y' # ys'"
proof -
  have "takeWhile P (xs @ y # ys) = xs"
    using assms(1,4) by (simp add: takeWhile_append2 list_all_iff)
  moreover have "takeWhile P (xs' @ y' # ys') = xs'"
    using assms(2,5) by (simp add: takeWhile_append2 list_all_iff)
  ultimately have "xs = xs'" using assms(3) by simp
  then show ?thesis using assms(3) by simp
qed

lemma pattern_tail_head:
  assumes "list_all2 piece_ok pattern_tail tsegs"
  shows "\<exists>c cs. concat tsegs = c # cs \<and> \<not> is_digit c"
proof -
  obtain q where q: "pattern_tail = Star Space # One (Lit CHR ''%'') # q"
    by (simp add: pattern_tail_def lits_def)
  from assms[unfolded q] obtain z1 z2 zs where
    t: "tsegs = z1 # z2 # zs" and z1: "piece_ok (Star Space) z1" and z2: "piece_ok (One (Lit CHR ''%'')) z2"
    unfolding list_all2_Cons1 by blast
  from z2 have z2': "z2 = ''%''" by (simp only: piece_ok_One_Lit)
  show ?thesis
  proof (cases z1)
    case Nil
    then show ?thesis using t z2' by (simp add: is_digit_def)
  next
    case (Cons c cs)
    with z1 have "is_space c" by simp
    then have "\<not> is_digit c" using digit_not_space by blast
    then show ?thesis using t Cons by simp
  qed
qed

lemma group1_unique:
  assumes "list_all2 piece_ok pattern segs" and "list_all2 piece_ok pattern segs'"
    and "concat segs @ r = concat segs' @ r'"
  shows "group1 segs = group1 segs'"
proof -
  from pattern_pieces[OF assms(1)] obtain ws d1 d2 ts where
    s: "segs = [''H'', ''e'', ws, d1, ''.'', d2] @ ts"
    and c: "ws \<noteq> []" "list_all is_space ws" "d1 \<noteq> []" "list_all is_digit d1"
      "d2 \<noteq> []" "list_all is_digit d2"
    and t: "list_all2 piece_ok pattern_tail ts"
    by blast
  from pattern_pieces[OF assms(2)] obtain ws' d1' d2' ts' where
    s': "segs' = [''H'', ''e'', ws', d1', ''.'', d2'] @ ts'"
    and c': "ws' \<noteq> []" "list_all is_space ws'" "d1' \<noteq> []" "list_all is_digit d1'"
      "d2' \<noteq> []" "list_all is_digit d2'"
    and t': "list_all2 piece_ok pattern_tail ts'"
    by blast
  from pattern_tail_head[OF t] obtain a as where a: "concat ts = a # as" "\<not> is_digit a" by blast
  from pattern_tail_head[OF t'] obtain a' as' where a': "concat ts' = a' # as'" "\<not> is_digit a'" by blast
  from c(3) obtain x xs where x: "d1 = x # xs" by (cases d1) auto
  from c'(3) obtain x' xs' where x': "d1' = x' # xs'" by (cases d1') auto
  have nx: "\<not> is_space x" "\<not> is_space x'"
    using c(4) c'(4) x x' digit_not_space by auto
  have e0: "ws @ x # (xs @ ''.'' @ d2 @ concat ts @ r) = ws' @ x' # (xs' @ ''.'' @ d2' @ concat ts' @ r')"
    using assms(3) s s' x x' by simp
  from run_unique[OF c(2) c'(2) e0 nx]
  have e1: "d1 @ CHR ''.'' # (d2 @ concat ts @ r) = d1' @ CHR ''.'' # (d2' @ concat ts' @ r')"
    using x x' by simp
  have nd: "\<not> is_digit CHR ''.''" by (simp add: is_digit_def)
  from run_unique[OF c(4) c'(4) e1 nd nd]
  have d1: "d1 = d1'" and e2: "d2 @ a # (as @ r) = d2' @ a' # (as' @ r')"
    using a a' by simp_all
  from run_unique[OF c(6) c'(6) e2 a(2) a'(2)] have d2: "d2 = d2'" by simp
  show ?thesis unfolding s s' group1_pieces using d1 d2 by simp
qed

lemma re_search_at:
  assumes "match_here p u = Some (segs, rest)"
    and "\<forall>pre1 pre2. pre = pre1 @ pre2 \<and> pre2 \<noteq> [] \<longrightarrow> match_here p (pre2 @ u) = None"
  shows "re_search p (pre @ u) = Some segs"
  using assms(2)
proof (induction pre)
  case Nil
  show ?case using assms(1) by (cases u) simp_all
next
  case (Cons x pre)
  from Cons.prems have "match_here p ((x # pre) @ u) = None"
    by (metis append_Nil list.distinct(1))
  moreover have "\<forall>pre1 pre2. pre = pre1 @ pre2 \<and> pre2 \<noteq> [] \<longrightarrow> match_here p (pre2 @ u) = None"
    using Cons.prems by (metis append_Cons)
  ultimately show ?case using Cons.IH by simp
qed

lemma pattern_pieces_conv:
  assumes "ws \<noteq> []" "list_all is_space ws" "d1 \<noteq> []" "list_all is_digit d1"
    "d2 \<noteq> []" "list_all is_digit d2" "list_all2 piece_ok pattern_tail tsegs"
  shows "list_all2 piece_ok pattern ([''H'', ''e'', ws, d1, ''.'', d2] @ tsegs)"
proof -
  have p: "pattern = One (Lit CHR ''H'') # One (Lit CHR ''e'') # Plus Space # Plus Digit
             # One (Lit CHR ''.'') # Plus Digit # pattern_tail"
    by (simp add: pattern_def pattern_head_def decimal_def lits_def)
  show ?thesis unfolding p using assms by (simp add: list_all_iff)
qed

lemma parse_data_reading: "parse_data s = Some g \<Longrightarrow> helium_reading s g"
proof -
  assume "parse_data s = Some g"
  then obtain segs where rs: "re_search pattern s = Some segs" and g: "g = group1 segs"
    by (auto simp: parse_data_def split: option.splits)
  from re_search_Some[OF rs] obtain pre rest where
    s: "s = pre @ concat segs @ rest"
    and m: "match_here pattern (concat segs @ rest) = Some (segs, rest)"
    and left: "\<forall>pre1 pre2. pre = pre1 @ pre2 \<and> pre2 \<noteq> [] \<longrightarrow>
                 match_here pattern (pre2 @ concat segs @ rest) = None"
    by blast
  from match_here_sound[OF m] have ok: "list_all2 piece_ok pattern segs" by simp
  from pattern_pieces[OF ok] obtain ws d1 d2 tsegs where
    segs: "segs = [''H'', ''e'', ws, d1, ''.'', d2] @ tsegs"
    and c: "ws \<noteq> []" "list_all is_space ws" "d1 \<noteq> []" "list_all is_digit d1"
      "d2 \<noteq> []" "list_all is_digit d2"
    and t: "list_all2 piece_ok pattern_tail tsegs"
    by blast
  have g': "g = d1 @ ''.'' @ d2" using g segs group1_pieces by simp
  have cs: "concat segs = ''He'' @ ws @ g @ concat tsegs" using segs g' by simp
  have "s = pre @ ''He'' @ ws @ g @ concat tsegs @ rest" using s cs by simp
  moreover have "in_lang pattern_tail (concat tsegs)" using t by (auto simp: in_lang_def)
  moreover have "\<forall>pre1 pre2. pre = pre1 @ pre2 \<and> pre2 \<noteq> [] \<longrightarrow>
      \<not> (\<exists>w post'. pre2 @ ''He'' @ ws @ g @ concat tsegs @ rest = w @ post' \<and> in_lang pattern w)"
  proof (intro allI impI)
    fix pre1 pre2 assume a: "pre = pre1 @ pre2 \<and> pre2 \<noteq> []"
    with left have "match_here pattern (pre2 @ concat segs @ rest) = None" by blast
    then have n: "\<not> (\<exists>w post'. pre2 @ concat segs @ rest = w @ post' \<and> in_lang pattern w)"
      unfolding match_here_None_iff .
    have eq: "pre2 @ concat segs @ rest = pre2 @ ''He'' @ ws @ g @ concat tsegs @ rest"
      by (simp only: cs append_assoc)
    show "\<not> (\<exists>w post'. pre2 @ ''He'' @ ws @ g @ concat tsegs @ rest = w @ post' \<and> in_lang pattern w)"
      using n unfolding eq .
  qed
  ultimately show "helium_reading s g"
    unfolding helium_reading_def using g' c by blast
qed

lemma reading_parse_data: "helium_reading s g \<Longrightarrow> parse_data s = Some g"
proof -
  assume "helium_reading s g"
  then obtain pre ws d1 d2 t post where
    s: "s = pre @ ''He'' @ ws @ g @ t @ post" and g: "g = d1 @ ''.'' @ d2"
    and c: "ws \<noteq> []" "list_all is_space ws" "d1 \<noteq> []" "list_all is_digit d1"
      "d2 \<noteq> []" "list_all is_digit d2"
    and t: "in_lang pattern_tail t"
    and left: "\<forall>pre1 pre2. pre = pre1 @ pre2 \<and> pre2 \<noteq> [] \<longrightarrow>
              \<not> (\<exists>w post'. pre2 @ ''He'' @ ws @ g @ t @ post = w @ post' \<and> in_lang pattern w)"
    unfolding helium_reading_def by (elim exE conjE) (rule that; assumption)
  let ?u = "''He'' @ ws @ g @ t @ post"
  from t obtain tsegs where ts: "t = concat tsegs" "list_all2 piece_ok pattern_tail tsegs"
    unfolding in_lang_def by (elim exE conjE) (rule that; assumption)
  let ?segs0 = "[''H'', ''e'', ws, d1, ''.'', d2] @ tsegs"
  have ok0: "list_all2 piece_ok pattern ?segs0"
    using c ts(2) by (rule pattern_pieces_conv)
  have u0: "?u = concat ?segs0 @ post" unfolding g ts(1) by simp
  have "match_here pattern ?u \<noteq> None"
    using u0 ok0 by (rule match_here_complete)
  then obtain segs rest where m: "match_here pattern ?u = Some (segs, rest)"
    by (cases "match_here pattern ?u") auto
  from match_here_sound[OF m] have snd: "?u = concat segs @ rest" "list_all2 piece_ok pattern segs"
    by (rule conjunct1, rule conjunct2)
  have "\<forall>pre1 pre2. pre = pre1 @ pre2 \<and> pre2 \<noteq> [] \<longrightarrow> match_here pattern (pre2 @ ?u) = None"
    using left unfolding match_here_None_iff .
  from re_search_at[OF m this] have "re_search pattern s = Some segs" unfolding s .
  then have "parse_data s = Some (group1 segs)" by (simp add: parse_data_def)
  moreover have "group1 segs = group1 ?segs0"
  proof -
    have e: "concat segs @ rest = concat ?segs0 @ post"
      by (rule trans [OF snd(1) [symmetric] u0])
    show ?thesis using snd(2) ok0 e by (rule group1_unique)
  qed
  moreover have "group1 ?segs0 = g" unfolding group1_pieces g ..
  ultimately show ?thesis by simp
qed

text \<open>The search is not anchored: text before and after a well-formed line is passed over.\<close>

lemma parse_data_unanchored: "parse_data (''>> '' @ example_line @ '' <<'') = Some ''23.5''"
  unfolding example_line_def by code_simp

text \<open>
  Claim C2. For every input string, \<open>parse_data\<close> returns the helium percentage when the
  string matches the analyzer line grammar, and \<open>None\<close> exactly when it does not. The
  documented line yields "23.5". A string matches when some stretch of it belongs to the
  language of the pattern (\<open>re.search\<close> is not anchored). The value returned is the
  decimal numeral that follows "He" and its whitespace in the leftmost such stretch, and
  nothing else.
\<close>

theorem parse_data_spec:
  "parse_data example_line = Some ''23.5''
   \<and> (parse_data s = None \<longleftrightarrow> \<not> matches_grammar s)
   \<and> (\<forall>g. parse_data s = Some g \<longleftrightarrow> helium_reading s g)"
proof (intro conjI allI)
  show "parse_data example_line = Some ''23.5''"
    unfolding example_line_def by code_simp
next
  have "parse_data s = None \<longleftrightarrow> re_search pattern s = None"
    by (simp add: parse_data_def split: option.splits)
  also have "\<dots> \<longleftrightarrow> (\<forall>pre t. s = pre @ t \<longrightarrow> \<not> (\<exists>w post. t = w @ post \<and> in_lang pattern w))"
    by (simp only: re_search_None_iff match_here_None_iff)
  also have "\<dots> \<longleftrightarrow> \<not> matches_grammar s"
    unfolding matches_grammar_def by blast
  finally show "parse_data s = None \<longleftrightarrow> \<not> matches_grammar s" .
next
  fix g show "parse_data s = Some g \<longleftrightarrow> helium_reading s g"
    using parse_data_reading reading_parse_data by blast
qed

theorem parse_data_spec_witness:
  "parse_data example_line = Some ''23.5'' \<and> matches_grammar example_line
   \<and> helium_reading example_line ''23.5''
   \<and> parse_data ''He 23.5% O2 21.2%'' = None \<and> \<not> matches_grammar ''He 23.5% O2 21.2%''"
proof -
  have a: "parse_data example_line = Some ''23.5''"
    unfolding example_line_def by code_simp
  have b: "parse_data ''He 23.5% O2 21.2%'' = None"
    by code_simp
  have iff: "parse_data s = None \<longleftrightarrow> \<not> matches_grammar s" for s
    by (rule conjunct1 [OF conjunct2 [OF parse_data_spec]])
  have m1: "matches_grammar example_line"
    using a iff [of example_line] by simp
  have m2: "\<not> matches_grammar ''He 23.5% O2 21.2%''"
    using b iff [of "''He 23.5% O2 21.2%''"] by simp
  have m3: "helium_reading example_line ''23.5''"
    using a conjunct2 [OF conjunct2 [OF parse_data_spec [of example_line]]] by blast
  show ?thesis
    by (intro conjI a b m1 m2 m3)
qed

subsection \<open>Reading the port\<close>

text \<open>No serial exception leaves the function: its \<open>except\<close> clause turns each into 0.\<close>

lemma read_from_serial_raise:
  "read_from_serial d ser k = Inl e \<Longrightarrow> \<not> is_SerialException e"
proof (induction d arbitrary: k e)
  case 0
  then show ?case by (simp add: is_SerialException_def)
next
  case (Suc d)
  then show ?case
    by (auto simp: then_do_def try_except_def split: sum.splits if_splits)
qed

lemma read_from_serial_exhausts:
  "\<forall>i<d. in_waiting ser (k + i) = Inr 0 \<Longrightarrow> read_from_serial d ser k = Inl RecursionError"
proof (induction d arbitrary: k)
  case 0
  then show ?case by simp
next
  case (Suc d)
  from Suc.prems have z: "in_waiting ser k = Inr 0"
    by (metis add.right_neutral zero_less_Suc)
  have "\<forall>i<d. in_waiting ser (Suc k + i) = Inr 0"
    using Suc.prems by (metis Suc_less_eq add_Suc_shift)
  from Suc.IH [OF this] show ?case
    using z by (simp add: then_do_def try_except_def is_SerialException_def)
qed

lemma read_from_serial_str:
  "read_from_serial d ser k = Inr (RetStr v) \<Longrightarrow>
     \<exists>n line. in_waiting ser k = Inr n \<and> 0 < n \<and> readline_decoded ser k = Inr line
        \<and> parse_data (py_strip line) = Some v"
  by (cases d)
    (auto simp: then_do_def try_except_def ret_of_parse_def
      split: sum.splits if_splits option.splits)

lemma read_from_serial_int:
  "read_from_serial d ser k = Inr (RetInt i) \<Longrightarrow>
     i = 0 \<and> ((\<exists>e. in_waiting ser k = Inl e \<and> is_SerialException e)
       \<or> (\<exists>n e. in_waiting ser k = Inr n \<and> 0 < n \<and> readline_decoded ser k = Inl e
              \<and> is_SerialException e))"
  by (cases d)
    (auto simp: then_do_def try_except_def ret_of_parse_def dest: read_from_serial_raise
      split: sum.splits if_splits option.splits)

lemma read_from_serial_retry:
  "in_waiting ser k = Inr 0 \<Longrightarrow>
     read_from_serial (Suc d) ser k =
       (case read_from_serial d ser (Suc k) of
          Inl e \<Rightarrow> Inl e
        | Inr v \<Rightarrow> Inr RetNone)"
  by (auto simp: then_do_def try_except_def dest: read_from_serial_raise split: sum.splits)

lemma read_from_serial_settles:
  "port_settles ser (k + j) \<Longrightarrow> \<forall>i<j. in_waiting ser (k + i) = Inr 0 \<Longrightarrow> j < d \<Longrightarrow>
     \<exists>v. read_from_serial d ser k = Inr v"
proof (induction j arbitrary: k d)
  case 0
  then obtain d' where d: "d = Suc d'" by (cases d) auto
  from 0 show ?case unfolding d
    by (auto simp: port_settles_def then_do_def try_except_def split: sum.splits)
next
  case (Suc j)
  then obtain d' where d: "d = Suc d'" and j: "j < d'" by (cases d) auto
  from Suc.prems(2) have z: "in_waiting ser k = Inr 0" by (metis add.right_neutral zero_less_Suc)
  have "port_settles ser (Suc k + j)" using Suc.prems(1) by simp
  moreover have "\<forall>i<j. in_waiting ser (Suc k + i) = Inr 0"
    using Suc.prems(2) by (metis Suc_less_eq add_Suc_shift)
  ultimately obtain v where "read_from_serial d' ser (Suc k) = Inr v"
    using Suc.IH j by blast
  then show ?case unfolding d
    by (simp add: read_from_serial_retry [OF z] del: read_from_serial.simps)
qed

text \<open>
  The paths on which the function returns. A parsed value comes only from bytes that are
  waiting at the moment of the call; an empty first poll followed, within the depth still
  available, by a poll that finds bytes or meets a serial exception gives \<open>None\<close>; 0 comes
  only from a serial exception during the call's own read.
\<close>

lemma read_from_serial_paths:
  "(\<forall>v. read_from_serial d ser k = Inr (RetStr v) \<longrightarrow>
        (\<exists>n line. in_waiting ser k = Inr n \<and> 0 < n \<and> readline_decoded ser k = Inr line
           \<and> parse_data (py_strip line) = Some v))
   \<and> (in_waiting ser k = Inr 0
        \<and> (\<exists>j<d. port_settles ser (Suc k + j) \<and> (\<forall>i<j. in_waiting ser (Suc k + i) = Inr 0))
      \<longrightarrow> read_from_serial (Suc d) ser k = Inr RetNone)
   \<and> ((\<forall>i. i \<le> d \<longrightarrow> in_waiting ser (k + i) = Inr 0)
      \<longrightarrow> read_from_serial (Suc d) ser k = Inl RecursionError)
   \<and> (\<forall>i. read_from_serial d ser k = Inr (RetInt i) \<longrightarrow>
        i = 0 \<and> ((\<exists>e. in_waiting ser k = Inl e \<and> is_SerialException e)
          \<or> (\<exists>n e. in_waiting ser k = Inr n \<and> 0 < n \<and> readline_decoded ser k = Inl e
                 \<and> is_SerialException e)))"
proof (intro conjI allI impI)
  fix v assume "read_from_serial d ser k = Inr (RetStr v)"
  then show "\<exists>n line. in_waiting ser k = Inr n \<and> 0 < n \<and> readline_decoded ser k = Inr line
           \<and> parse_data (py_strip line) = Some v"
    by (rule read_from_serial_str)
next
  assume a: "in_waiting ser k = Inr 0
        \<and> (\<exists>j<d. port_settles ser (Suc k + j) \<and> (\<forall>i<j. in_waiting ser (Suc k + i) = Inr 0))"
  then obtain j where "port_settles ser (Suc k + j)" "\<forall>i<j. in_waiting ser (Suc k + i) = Inr 0" "j < d"
    by blast
  from read_from_serial_settles [OF this] obtain v where "read_from_serial d ser (Suc k) = Inr v"
    by blast
  then show "read_from_serial (Suc d) ser k = Inr RetNone"
    using a by (simp add: read_from_serial_retry del: read_from_serial.simps)
next
  assume "\<forall>i. i \<le> d \<longrightarrow> in_waiting ser (k + i) = Inr 0"
  then have "\<forall>i<Suc d. in_waiting ser (k + i) = Inr 0" by (simp add: less_Suc_eq_le)
  then show "read_from_serial (Suc d) ser k = Inl RecursionError"
    by (rule read_from_serial_exhausts)
next
  fix i assume "read_from_serial d ser k = Inr (RetInt i)"
  then show "i = 0" by (simp add: read_from_serial_int)
next
  fix i assume "read_from_serial d ser k = Inr (RetInt i)"
  then show "(\<exists>e. in_waiting ser k = Inl e \<and> is_SerialException e)
          \<or> (\<exists>n e. in_waiting ser k = Inr n \<and> 0 < n \<and> readline_decoded ser k = Inl e
                 \<and> is_SerialException e)"
    using read_from_serial_int by blast
qed

lemma read_from_serial_sample_runs:
  "in_waiting late_port 0 = Inr 0 \<and> (0::nat) < 5 \<and> port_settles late_port (Suc 0 + 0)
   \<and> read_from_serial (Suc 5) late_port 0 = Inr RetNone
   \<and> read_from_serial 5 late_port 1 = Inr (RetStr ''23.5'')
   \<and> read_from_serial (Suc 5) empty_port 0 = Inl RecursionError
   \<and> read_from_serial 5 full_port 0 = Inr (RetStr ''23.5'')
   \<and> in_waiting full_port 0 = Inr 60
   \<and> read_from_serial 5 broken_port 0 = Inr (RetInt 0)
   \<and> in_waiting broken_port 0 = Inl SerialException \<and> is_SerialException SerialException"
proof -
  have p: "parse_data (py_strip example_line) = Some ''23.5''"
    unfolding example_line_def by code_simp
  have five: "(5::nat) = Suc 4" by simp
  have z: "in_waiting late_port 0 = Inr 0" by (simp add: late_port_def)
  have s: "port_settles late_port (Suc 0 + 0)" by (simp add: port_settles_def late_port_def)
  have "\<exists>j<5. port_settles late_port (Suc 0 + j) \<and> (\<forall>i<j. in_waiting late_port (Suc 0 + i) = Inr 0)"
    using s by (intro exI [of _ 0]) simp
  with z read_from_serial_paths [of 5 late_port 0]
  have n: "read_from_serial (Suc 5) late_port 0 = Inr RetNone" by blast
  have l: "read_from_serial 5 late_port 1 = Inr (RetStr ''23.5'')"
    by (subst five, subst read_from_serial.simps(2))
      (simp add: late_port_def then_do_def try_except_def p ret_of_parse_def)
  have f: "read_from_serial 5 full_port 0 = Inr (RetStr ''23.5'')"
    by (subst five, subst read_from_serial.simps(2))
      (simp add: full_port_def then_do_def try_except_def p ret_of_parse_def)
  have b: "read_from_serial 5 broken_port 0 = Inr (RetInt 0)"
    by (subst five, subst read_from_serial.simps(2))
      (simp add: broken_port_def then_do_def try_except_def is_SerialException_def)
  have e: "read_from_serial (Suc 5) empty_port 0 = Inl RecursionError"
    using read_from_serial_paths [of 5 empty_port 0] by (simp add: empty_port_def)
  show ?thesis
    using z s n l f b e by (simp add: full_port_def broken_port_def is_SerialException_def)
qed

text \<open>
  Claim C9. \<open>read_from_serial\<close> returns a parsed helium value only when bytes are waiting
  at the moment of the call; when none are waiting, the result of the retry is discarded and
  the function returns \<open>None\<close>; it returns 0 only when a serial exception is raised during
  the read. On a port that stays silent the code does not return at all: the retry is a
  recursion with neither bound nor delay, and with a thousand activations allowed the call
  ends in RecursionError, which the \<open>except\<close> clause does not catch.
\<close>

theorem read_from_serial_empty_port:
  "in_waiting empty_port 0 = Inr 0
   \<and> read_from_serial 1000 empty_port 0 = Inl RecursionError
   \<and> read_from_serial 1000 empty_port 0 \<noteq> Inr RetNone"
proof -
  have "\<forall>i<1000. in_waiting empty_port (0 + i) = Inr 0" by (simp add: empty_port_def)
  from read_from_serial_exhausts [OF this] show ?thesis
    by (simp add: empty_port_def)
qed

section \<open>Results on check_serial.py\<close>

lemma py_eq_str_int: "py_eq (PyStr t) (PyInt i) = False"
  by simp

text \<open>The first loop never binds \<open>relay_switch\<close>, whatever the ports are.\<close>

lemma relay_scan_None: "relay_scan w None ports = None"
  by (induction ports) simp_all

text \<open>The second loop classifies a port by its vendor id.\<close>

lemma scan_port_classifies:
  "(vid p = PyInt 1240 \<longrightarrow>
      scan_port w st p
        = Inr (register ''Leak Detector'' LeakDetector p
                 (st\<lparr>devices := devices st @ [(description p, device p)]\<rparr>)))
   \<and> (vid p = PyInt 42496 \<longrightarrow>
      scan_port w st p
        = Inr (register ''Helium Analyzer'' HeliumAnalyzer p
                 (st\<lparr>devices := devices st @ [(description p, device p)]\<rparr>)))
   \<and> (vid p = PyInt 1027 \<and> stop_gas_flow w (device p) = Inr True \<longrightarrow>
      scan_port w st p
        = Inr (register ''Mass Flow Controller'' MassFlowController p
                 (st\<lparr>devices := devices st @ [(description p, device p)]\<rparr>)))
   \<and> (vid p = PyInt 1027 \<and> stop_gas_flow w (device p) = Inr False \<longrightarrow>
      scan_port w st p
        = Inr (st\<lparr>devices := devices st @ [(description p, device p)],
                  connected := connected st @ [(py_strip (device p), PressureGauge)]\<rparr>))"
  by (simp add: scan_port_def INFICON_LEAK_DETECTOR_VID_def HELIUM_ANALYZER_VID_def
      SERIAL_PORT_VID_def then_do_def Let_def)

text \<open>
  Claim C8. Every scanned port is classified by its vendor id: a port with the id 1027
  (\<open>SERIAL_PORT_VID\<close>) is to be detected as the Relay Switch in the first pass; in the
  second pass 1240 is registered as the Leak Detector, 42496 as the Helium Analyzer, and 1027
  as the Mass Flow Controller when the stop-gas-flow probe succeeds, as a Pressure Gauge
  otherwise. The second pass does so. The first pass compares the string \<open>str(port.vid)\<close>
  with the integer 1027, and the two are never equal: on a port with the vendor id 1027
  whose relay would connect, \<open>relay_switch\<close> stays \<open>None\<close> and the port is registered as
  the Mass Flow Controller only.
\<close>

theorem relay_scan_misses_vendor_1027:
  "vid example_port = PyInt SERIAL_PORT_VID
   \<and> relay_connect example_world (device example_port)
   \<and> relay_scan example_world None [example_port] = None
   \<and> get_serial_devices example_world example_repository [example_port]
       = Inr (None,
              \<lparr>repository = example_repository
                  (''Mass Flow Controller'' := \<lparr>port = ''COM3'', is_available = True\<rparr>),
               connected = [(''COM3'', MassFlowController)],
               devices = [(''USB Serial Port'', ''COM3'')]\<rparr>)"
  by (simp add: example_port_def example_world_def SERIAL_PORT_VID_def get_serial_devices_def
      scan_port_def INFICON_LEAK_DETECTOR_VID_def HELIUM_ANALYZER_VID_def stop_gas_flow_def
      then_do_def try_except_def py_strip_def is_space_def register_def example_repository_def)

section \<open>Results on HeliumLeakTestApp.py\<close>

text \<open>
  Claim C4. \<open>get_power_on_time\<close> returns 0 when the leak detector is marked unavailable,
  when opening or configuring the serial port raises a serial exception, and when the reply
  does not parse as an integer (decoding it or \<open>int\<close> raises a ValueError); it returns the
  parsed integer when every step succeeds. On none of these paths does it raise.
\<close>

theorem get_power_on_time_cases:
  "(\<not> leakDetector_available ld \<longrightarrow> get_power_on_time ld = Inr 0)
   \<and> (leakDetector_available ld \<and> (\<exists>e. open_port ld = Inl e \<and> is_SerialException e)
        \<longrightarrow> get_power_on_time ld = Inr 0)
   \<and> (leakDetector_available ld \<and> open_port ld = Inr ()
        \<and> (\<exists>e. apply_settings ld = Inl e \<and> is_SerialException e)
        \<longrightarrow> get_power_on_time ld = Inr 0)
   \<and> (leakDetector_available ld \<and> open_port ld = Inr () \<and> apply_settings ld = Inr ()
        \<and> flushInput ld = Inr () \<and> write_command ld = Inr () \<and> flushOutput ld = Inr ()
        \<and> (\<exists>e. then_do (readline ld) (\<lambda>line. then_do (decode ld line) (int_of ld)) = Inl e
                 \<and> is_ValueError e)
        \<longrightarrow> get_power_on_time ld = Inr 0)
   \<and> (\<forall>n. leakDetector_available ld \<and> open_port ld = Inr () \<and> apply_settings ld = Inr ()
        \<and> flushInput ld = Inr () \<and> write_command ld = Inr () \<and> flushOutput ld = Inr ()
        \<and> then_do (readline ld) (\<lambda>line. then_do (decode ld line) (int_of ld)) = Inr n
        \<longrightarrow> get_power_on_time ld = Inr n)"
  by (auto simp: get_power_on_time_def then_do_def try_except_def split: sum.splits)

lemma int_of_decimal_12: "int_of_decimal (''12'' @ [CHR 0x0D, CHR 0x0A]) = Inr 12"
  by (simp add: int_of_decimal_def is_int_space_def is_digit_def)

lemma int_of_decimal_err: "int_of_decimal ''ERR'' = Inl ValueError"
  by (simp add: int_of_decimal_def is_int_space_def is_digit_def)

lemma int_of_decimal_signed:
  "int_of_decimal ''-5'' = Inr (- 5) \<and> int_of_decimal [CHR 0x1C, CHR ''5''] = Inl ValueError"
  by (simp add: int_of_decimal_def is_int_space_def is_digit_def)

theorem get_power_on_time_cases_witness:
  "get_power_on_time (example_detector False (Inr ()) (Inr ()) ''12'') = Inr 0
   \<and> is_SerialException SerialException
   \<and> get_power_on_time (example_detector True (Inl SerialException) (Inr ()) ''12'') = Inr 0
   \<and> get_power_on_time (example_detector True (Inr ()) (Inl SerialException) ''12'') = Inr 0
   \<and> int_of_decimal ''ERR'' = Inl ValueError \<and> is_ValueError ValueError
   \<and> get_power_on_time (example_detector True (Inr ()) (Inr ()) ''ERR'') = Inr 0
   \<and> int_of_decimal (''12'' @ [CHR 0x0D, CHR 0x0A]) = Inr 12
   \<and> get_power_on_time (example_detector True (Inr ()) (Inr ()) (''12'' @ [CHR 0x0D, CHR 0x0A]))
       = Inr 12"
  using get_power_on_time_cases [of "example_detector False (Inr ()) (Inr ()) ''12''"]
    get_power_on_time_cases [of "example_detector True (Inl SerialException) (Inr ()) ''12''"]
    get_power_on_time_cases [of "example_detector True (Inr ()) (Inl SerialException) ''12''"]
    get_power_on_time_cases [of "example_detector True (Inr ()) (Inr ()) ''ERR''"]
    get_power_on_time_cases
      [of "example_detector True (Inr ()) (Inr ()) (''12'' @ [CHR 0x0D, CHR 0x0A])"]
    int_of_decimal_12 int_of_decimal_err
  by (simp add: example_detector_def is_SerialException_def is_ValueError_def then_do_def)

end
